theory Spec2Isabelle
  imports Main "HOL-Library.Word" "HOL-Library.Sublist"
begin

section \<open>JavaScript strings and primitive values\<close>

text \<open>
  The bot is one JavaScript module. A JavaScript string is a sequence of UTF-16 code
  units; \<open>length\<close>, indexing, \<open>slice\<close> and \<open>repeat\<close> all count code units, so a
  string is modelled as a list of 16-bit words. ASCII literals of the source are written
  through \<open>ascii\<close>; the other characters of its literals are given by their code units.
\<close>

type_synonym jsstring = "16 word list"

definition ascii :: "string \<Rightarrow> jsstring" where
  "ascii s = map (\<lambda>c. word_of_nat (of_char c)) s"

definition newline :: jsstring where
  "newline = [0x0A]"

text \<open>\<open>s.repeat(n)\<close> for a count that is a non-negative integer.\<close>

definition repeat :: "jsstring \<Rightarrow> nat \<Rightarrow> jsstring" where
  "repeat s n = concat (replicate n s)"

text \<open>
  \<open>s.slice(-k)\<close> for a non-negative integer \<open>k\<close>: the start index is
  \<open>max (length s - k) 0\<close> when \<open>-k\<close> is negative, and \<open>-0\<close> is \<open>0\<close>, so that \<open>slice(-0)\<close>
  is the whole string.
\<close>

definition slice_last :: "jsstring \<Rightarrow> nat \<Rightarrow> jsstring" where
  "slice_last s k = (if k = 0 then s else drop (length s - k) s)"

text \<open>\<open>Array.prototype.join\<close> on an array of strings.\<close>

fun join :: "jsstring \<Rightarrow> jsstring list \<Rightarrow> jsstring" where
  "join sep [] = []"
| "join sep [x] = x"
| "join sep (x # y # ys) = x @ sep @ join sep (y # ys)"

text \<open>
  The decimal rendering of a non-negative integer, which is what a template literal
  produces for the integer-valued numbers of this program (member indices, the HTTP
  status, the counters).
\<close>

function decimal :: "nat \<Rightarrow> jsstring" where
  "decimal n = (if n < 10 then [word_of_nat (48 + n)]
                else decimal (n div 10) @ [word_of_nat (48 + n mod 10)])"
  by pat_completeness auto
termination
  by (relation "measure id") auto

declare decimal.simps [simp del]

text \<open>
  \<open>String.prototype.trim\<close> removes leading and trailing white space and line
  terminators: TAB, LF, VT, FF, CR, SPACE, NBSP, the Unicode space separators, LS, PS
  and the byte order mark.
\<close>

definition is_space :: "16 word \<Rightarrow> bool" where
  "is_space c = (c \<in> {0x09, 0x0A, 0x0B, 0x0C, 0x0D, 0x20, 0xA0, 0x1680, 0x2028, 0x2029,
                      0x202F, 0x205F, 0x3000, 0xFEFF} \<or> (0x2000 \<le> c \<and> c \<le> 0x200A))"

definition trim :: "jsstring \<Rightarrow> jsstring" where
  "trim s = rev (dropWhile is_space (rev (dropWhile is_space s)))"

text \<open>
  The values the handler reads out of the parsed response are modelled for the
  primitive JavaScript values: \<open>undefined\<close> (what reading a missing property gives),
  \<open>null\<close>, booleans, numbers and strings. The program observes a number only through
  \<open>!n\<close> and through its conversion to a string, and \<open>JSON.parse\<close> never yields \<open>NaN\<close>,
  so a number is represented by its string conversion: it is falsy exactly when that
  conversion is \<open>0\<close> (both zeros print as \<open>0\<close>). Arrays and objects in the position of a
  scalar field are outside the model.
\<close>

datatype jsval = Undefined | Null | Bool bool | Num jsstring | Str jsstring

fun truthy :: "jsval \<Rightarrow> bool" where
  "truthy Undefined = False"
| "truthy Null = False"
| "truthy (Bool b) = b"
| "truthy (Num t) = (t \<noteq> ascii ''0'')"
| "truthy (Str s) = (s \<noteq> [])"

fun toString :: "jsval \<Rightarrow> jsstring" where
  "toString Undefined = ascii ''undefined''"
| "toString Null = ascii ''null''"
| "toString (Bool b) = (if b then ascii ''true'' else ascii ''false'')"
| "toString (Num t) = t"
| "toString (Str s) = s"

text \<open>\<open>v || "N/A"\<close> and \<open>v ?? "N/A"\<close>.\<close>

definition or_na :: "jsval \<Rightarrow> jsval" where
  "or_na v = (if truthy v then v else Str (ascii ''N/A''))"

definition nullish_na :: "jsval \<Rightarrow> jsval" where
  "nullish_na v = (case v of Undefined \<Rightarrow> Str (ascii ''N/A'') | Null \<Rightarrow> Str (ascii ''N/A'') | _ \<Rightarrow> v)"

section \<open>Exceptions\<close>

text \<open>
  Three kinds of exception reach the handler's \<open>catch\<close>: the \<open>Error\<close> it throws itself
  for a response that is not ok, the rejection of an awaited promise of a collaborator
  (the chat client, \<open>fetch\<close>, \<open>res.json()\<close>), represented by the rendering of its
  \<open>message\<close> property, and a \<open>TypeError\<close> raised by the engine while rendering. The text
  of an engine's \<open>TypeError\<close> is not fixed by the language and is a parameter.
\<close>

datatype type_error = MapNotFunction | PropertyOfNull | PropertyOfUndefined

datatype exn = HttpError nat | Rejection jsstring | TypeError type_error

section \<open>Masking utilities\<close>

text \<open>
  \<open>maskString\<close> and \<open>maskName\<close> are the same in both source files.
  \<open>toUpperCase\<close> is the engine's Unicode upper-casing of a string, a parameter of the
  model; it may return more than one code unit for one.
\<close>

definition maskString :: "jsval \<Rightarrow> nat \<Rightarrow> jsstring" where
  "maskString str keepLast =
     (if \<not> truthy str then ascii ''N/A''
      else let s = toString str
           in if length s \<le> keepLast then repeat (ascii ''*'') (length s)
              else repeat (ascii ''*'') (length s - keepLast) @ slice_last s keepLast)"

text \<open>
  In \<open>maskName\<close>, \<open>name[0]\<close> is the first code unit of a string and \<open>undefined\<close> for a
  number or a boolean, on which \<open>.toUpperCase()\<close> throws.
\<close>

definition maskName :: "(jsstring \<Rightarrow> jsstring) \<Rightarrow> jsval \<Rightarrow> exn + jsstring" where
  "maskName up name =
     (if \<not> truthy name then Inr (ascii ''N/A'')
      else case name of
             Str (c # cs) \<Rightarrow>
               Inr (up [c] @ ascii ''.'' @
                    repeat (ascii ''*'') (nat (max 0 (int (length (c # cs)) - 1))))
           | _ \<Rightarrow> Inl (TypeError PropertyOfUndefined))"

definition safeLine :: "jsstring \<Rightarrow> jsval \<Rightarrow> jsstring" where
  "safeLine label v = label @ ascii '': '' @ toString (nullish_na v)"

section \<open>The parsed response\<close>

text \<open>
  \<open>res.json()\<close> yields an arbitrary JSON value. The handler reads five properties of
  it, and three properties of every element of \<open>memberDetailsList\<close>. Reading a property
  of a primitive other than \<open>null\<close> and \<open>undefined\<close> gives \<open>undefined\<close>; reading one of
  \<open>null\<close> throws. An element of the member array is therefore \<open>null\<close> or the three
  values its property reads give, and the body is a primitive or the values of its five
  properties. The member list is an array, or a primitive (absent is \<open>undefined\<close>).
\<close>

record member =
  memberName :: jsval
  releationship_name :: jsval
  memberId :: jsval

datatype element = NullElement | Element member

datatype memberlist = NotArray jsval | Array "element list"

record family =
  schemeName :: jsval
  homeDistName :: jsval
  homeStateName :: jsval
  address :: jsval
  memberDetailsList :: memberlist

datatype body = Primitive jsval | Object family

fun body_truthy :: "body \<Rightarrow> bool" where
  "body_truthy (Primitive v) = truthy v"
| "body_truthy (Object f) = True"

fun list_truthy :: "memberlist \<Rightarrow> bool" where
  "list_truthy (NotArray v) = truthy v"
| "list_truthy (Array ms) = True"

text \<open>Property reads on a body that is not \<open>null\<close> or \<open>undefined\<close>.\<close>

fun get_memberDetailsList :: "body \<Rightarrow> memberlist" where
  "get_memberDetailsList (Object f) = memberDetailsList f"
| "get_memberDetailsList (Primitive v) = NotArray Undefined"

fun get_field :: "(family \<Rightarrow> jsval) \<Rightarrow> body \<Rightarrow> jsval" where
  "get_field sel (Object f) = sel f"
| "get_field sel (Primitive v) = Undefined"

section \<open>Configuration, effects and the session store\<close>

text \<open>
  The module reads \<open>ACCESS_CODE\<close>, \<open>AADHAR_API_BASE\<close> and \<open>SHOW_SENSITIVE\<close> from the
  environment once, at start. The engine's \<open>toUpperCase\<close> and \<open>encodeURIComponent\<close> and
  the text of its \<open>TypeError\<close>s are carried in the same record.
\<close>

record config =
  ACCESS_CODE :: jsstring
  API_BASE :: jsstring
  SHOW_SENSITIVE :: bool
  toUpperCase :: "jsstring \<Rightarrow> jsstring"
  encodeURIComponent :: "jsstring \<Rightarrow> jsstring"
  typeErrorMessage :: "type_error \<Rightarrow> jsstring"

text \<open>
  What the handler does to the outside is recorded as a trace of actions: messages
  handed to the chat client (plain, or with \<open>parse_mode: "Markdown"\<close>), the one HTTP GET,
  and \<open>console.error\<close>.
\<close>

datatype action =
    SendMessage int jsstring
  | SendMarkdown int jsstring
  | Fetch jsstring
  | ConsoleError exn

text \<open>
  What the outside answers is an input of the handler: whether each awaited promise
  resolves or rejects, and with what. Only the two awaited \<open>sendMessage\<close> calls can
  divert control; the others are not awaited.
\<close>

datatype 'a promise = Resolved 'a | Rejected jsstring

record response =
  ok :: bool
  status :: nat
  json :: "body promise"

record replies =
  sendFetching :: "unit promise"
  fetched :: "response promise"
  sendResult :: "unit promise"

record msg =
  chat_id :: int
  msg_text :: "jsstring option"

text \<open>
  \<open>authorizedUsers\<close> is an object used as a dictionary keyed by the chat id, and
  \<open>totalLookups\<close> a module-level counter. The counters are JavaScript numbers that
  start at 0 and only ever grow by 1; they are exact integers far beyond any number of
  lookups a process can make, and are modelled as natural numbers.
\<close>

record session =
  authorized :: bool
  queries :: nat

record store =
  authorizedUsers :: "int \<rightharpoonup> session"
  totalLookups :: nat

definition initial :: store where
  "initial = \<lparr>authorizedUsers = Map.empty, totalLookups = 0\<rparr>"

section \<open>The texts of the source\<close>

definition granted_text :: jsstring where
  "granted_text = [0x2705] @
     ascii '' Access Granted! You can now send Aadhaar family IDs to fetch info.''"

definition restricted_text :: jsstring where
  "restricted_text = [0xD83D, 0xDD12] @
     ascii '' Access Restricted. Please enter the correct access code.''"

definition invalid_text :: jsstring where
  "invalid_text = [0x26A0, 0xFE0F] @
     ascii '' Please send a valid Aadhaar family ID (digits only). Example: `116440054586`''"

definition fetching_text :: jsstring where
  "fetching_text = [0xD83D, 0xDD0D] @ ascii '' Fetching Aadhaar family info...''"

definition not_found_text :: jsstring where
  "not_found_text = [0x274C] @ ascii '' No data found for this Aadhaar family ID.''"

definition failed_prefix :: jsstring where
  "failed_prefix = [0x274C] @ ascii '' Failed to fetch data: ''"

definition unauthorized_stats_text :: jsstring where
  "unauthorized_stats_text = [0xD83D, 0xDEAB] @
     ascii '' You must be authorized to see stats. Enter the access code first.''"

definition header_text :: jsstring where
  "header_text = [0xD83E, 0xDEAA] @ ascii '' **Aadhaar Family Info**''"

definition rule_text :: jsstring where
  "rule_text = replicate 20 0x2500"

definition members_header :: jsstring where
  "members_header =
     [0xD83D, 0xDC68, 0x200D, 0xD83D, 0xDC69, 0x200D, 0xD83D, 0xDC67, 0x200D, 0xD83D, 0xDC66] @
     ascii '' **Members:**''"

definition warning_banner :: jsstring where
  "warning_banner = [0x26A0, 0xFE0F] @
     ascii '' Sensitive output is ENABLED. Handle with caution.''"

definition masked_notice :: jsstring where
  "masked_notice = [0xD83D, 0xDD12] @
     ascii '' Sensitive fields are masked. Set SHOW_SENSITIVE=true in .env to see full data.''"

section \<open>Rendering\<close>

text \<open>
  The callback of \<open>memberDetailsList.map\<close>, with the index \<open>i\<close> of the element. Reading
  \<open>m.memberName\<close> of a \<open>null\<close> element throws, and so may \<open>maskName\<close>.
\<close>

definition memberLine :: "config \<Rightarrow> nat \<Rightarrow> element \<Rightarrow> exn + jsstring" where
  "memberLine cfg i m =
     (case m of
        NullElement \<Rightarrow> Inl (TypeError PropertyOfNull)
      | Element mem \<Rightarrow>
          (case (if SHOW_SENSITIVE cfg then Inr (toString (memberName mem))
                 else maskName (toUpperCase cfg) (memberName mem)) of
             Inl e \<Rightarrow> Inl e
           | Inr name \<Rightarrow>
               let relation = or_na (releationship_name mem);
                   ident = (if SHOW_SENSITIVE cfg then toString (memberId mem)
                            else maskString (memberId mem) 4)
               in Inr (decimal (i + 1) @ ascii ''. '' @ name @ [0x20, 0x2014, 0x20] @
                       toString relation @ newline @ ascii ''   '' @ [0xD83C, 0xDD94, 0x20] @
                       ident)))"

text \<open>\<open>map\<close> visits the elements in order and stops at the first exception.\<close>

fun map_members :: "config \<Rightarrow> nat \<Rightarrow> element list \<Rightarrow> exn + jsstring list" where
  "map_members cfg i [] = Inr []"
| "map_members cfg i (m # ms) =
     (case memberLine cfg i m of
        Inl e \<Rightarrow> Inl e
      | Inr l \<Rightarrow> (case map_members cfg (i + 1) ms of
                   Inl e \<Rightarrow> Inl e
                 | Inr ls \<Rightarrow> Inr (l # ls)))"

text \<open>
  Lines 123 to 149 of the handler: the message built from a body whose member list is
  truthy. A truthy member list that is not an array has no \<open>map\<close> method.
\<close>

definition render :: "config \<Rightarrow> body \<Rightarrow> exn + jsstring" where
  "render cfg data =
     (let addr = (if SHOW_SENSITIVE cfg then get_field address data
                  else Str (maskString (get_field address data) 6));
          scheme = or_na (get_field schemeName data);
          district = or_na (get_field homeDistName data);
          state = or_na (get_field homeStateName data)
      in case (case get_memberDetailsList data of
                 NotArray v \<Rightarrow> Inl (TypeError MapNotFunction)
               | Array ms \<Rightarrow> map_members cfg 0 ms) of
           Inl e \<Rightarrow> Inl e
         | Inr ls \<Rightarrow>
             let members = join (newline @ newline) ls
             in Inr (join newline
                  [header_text,
                   rule_text,
                   safeLine (ascii ''Scheme'') scheme,
                   safeLine (ascii ''District'') district,
                   safeLine (ascii ''State'') state,
                   safeLine (ascii ''Address'') addr,
                   [],
                   members_header,
                   members,
                   [],
                   if SHOW_SENSITIVE cfg then warning_banner else masked_notice]))"

section \<open>The message handler\<close>

text \<open>The test \<open>/^\d{6,15}$/\<close>: six to fifteen ASCII digits and nothing else.\<close>

definition is_digit :: "16 word \<Rightarrow> bool" where
  "is_digit c = (0x30 \<le> c \<and> c \<le> 0x39)"

definition valid_family_id :: "jsstring \<Rightarrow> bool" where
  "valid_family_id t = (6 \<le> length t \<and> length t \<le> 15 \<and> list_all is_digit t)"

definition message_of :: "config \<Rightarrow> exn \<Rightarrow> jsstring" where
  "message_of cfg e =
     (case e of
        HttpError st \<Rightarrow> ascii ''HTTP '' @ decimal st
      | Rejection m \<Rightarrow> m
      | TypeError t \<Rightarrow> typeErrorMessage cfg t)"

text \<open>
  The body of \<open>try\<close>, for a chat whose session \<open>sess\<close> exists and a text that passed the
  test. The result is the store, the actions so far, and the exception thrown, if any.
  The two counters are incremented in one synchronous stretch, before rendering.
\<close>

definition try_block ::
  "config \<Rightarrow> store \<Rightarrow> int \<Rightarrow> session \<Rightarrow> jsstring \<Rightarrow> replies \<Rightarrow> store \<times> action list \<times> exn option"
where
  "try_block cfg st chatId sess t r =
     (case sendFetching r of
        Rejected e \<Rightarrow> (st, [SendMessage chatId fetching_text], Some (Rejection e))
      | Resolved u \<Rightarrow>
          let url = API_BASE cfg @ encodeURIComponent cfg t;
              acts = [SendMessage chatId fetching_text, Fetch url]
          in (case fetched r of
                Rejected e \<Rightarrow> (st, acts, Some (Rejection e))
              | Resolved res \<Rightarrow>
                  if \<not> ok res then (st, acts, Some (HttpError (status res)))
                  else (case json res of
                          Rejected e \<Rightarrow> (st, acts, Some (Rejection e))
                        | Resolved data \<Rightarrow>
                            if \<not> body_truthy data \<or> \<not> list_truthy (get_memberDetailsList data)
                            then (st, acts @ [SendMessage chatId not_found_text], None)
                            else
                              let st' = st\<lparr>authorizedUsers :=
                                             (authorizedUsers st)
                                               (chatId \<mapsto> sess\<lparr>queries := queries sess + 1\<rparr>),
                                           totalLookups := totalLookups st + 1\<rparr>
                              in (case render cfg data of
                                    Inl e \<Rightarrow> (st', acts, Some e)
                                  | Inr message \<Rightarrow>
                                      (case sendResult r of
                                         Rejected e \<Rightarrow>
                                           (st', acts @ [SendMarkdown chatId message],
                                            Some (Rejection e))
                                       | Resolved u' \<Rightarrow>
                                           (st', acts @ [SendMarkdown chatId message], None))))))"

text \<open>
  The handler of \<open>bot.on("message")\<close>: the new store and the trace of actions. Its text
  is \<open>String(msg.text || "").trim()\<close>, where \<open>msg.text\<close> is missing for a message that is
  not a text. A session is created only by a text equal to the access code, already
  authorized; a chat that has a session goes on to the test of the identifier whatever
  it sends.
\<close>

definition text_of :: "msg \<Rightarrow> jsstring" where
  "text_of m = trim (case msg_text m of None \<Rightarrow> [] | Some s \<Rightarrow> s)"

definition handler :: "config \<Rightarrow> store \<Rightarrow> msg \<Rightarrow> replies \<Rightarrow> store \<times> action list" where
  "handler cfg st m r =
     (let chatId = chat_id m;
          t = text_of m
      in if t = [] \<or> prefix (ascii ''/'') t then (st, [])
         else (case authorizedUsers st chatId of
                 None \<Rightarrow>
                   if t = ACCESS_CODE cfg
                   then (st\<lparr>authorizedUsers :=
                               (authorizedUsers st)
                                 (chatId \<mapsto> \<lparr>authorized = True, queries = 0\<rparr>)\<rparr>,
                         [SendMessage chatId granted_text])
                   else (st, [SendMessage chatId restricted_text])
               | Some sess \<Rightarrow>
                   if \<not> valid_family_id t
                   then (st, [SendMessage chatId invalid_text])
                   else (case try_block cfg st chatId sess t r of
                           (st', acts, None) \<Rightarrow> (st', acts)
                         | (st', acts, Some err) \<Rightarrow>
                             (st', acts @ [ConsoleError err,
                                           SendMessage chatId
                                             (failed_prefix @ message_of cfg err)]))))"

text \<open>A run of the bot: the handler applied to the inbound messages in turn.\<close>

fun run :: "config \<Rightarrow> store \<Rightarrow> (msg \<times> replies) list \<Rightarrow> store" where
  "run cfg st [] = st"
| "run cfg st ((m, r) # evs) = run cfg (fst (handler cfg st m r)) evs"

section \<open>The stats command\<close>

definition totalUsers :: "store \<Rightarrow> nat" where
  "totalUsers st = card (dom (authorizedUsers st))"

definition statsMsg :: "nat \<Rightarrow> nat \<Rightarrow> nat \<Rightarrow> jsstring" where
  "statsMsg users userQueries lookups =
     newline @ [0xD83D, 0xDCCA] @ ascii '' *Bot Stats:*'' @ newline @
     rule_text @ newline @
     [0xD83D, 0xDC64] @ ascii '' Authorized Users: '' @ decimal users @ newline @
     [0xD83D, 0xDCC8] @ ascii '' Your Queries: '' @ decimal userQueries @ newline @
     [0xD83C, 0xDF10] @ ascii '' Total Lookups: '' @ decimal lookups @ newline"

definition stats :: "store \<Rightarrow> int \<Rightarrow> action list" where
  "stats st chatId =
     (case authorizedUsers st chatId of
        None \<Rightarrow> [SendMessage chatId unauthorized_stats_text]
      | Some sess \<Rightarrow>
          if \<not> authorized sess then [SendMessage chatId unauthorized_stats_text]
          else [SendMarkdown chatId
                  (statsMsg (totalUsers st) (queries sess) (totalLookups st))])"

section \<open>Concrete inputs\<close>

text \<open>
  The inputs at which the theorems below are instantiated. \<open>ascii_upper\<close> is
  \<open>toUpperCase\<close> on strings of ASCII characters, \<open>v8_message\<close> gives the texts of V8, and
  \<open>encodeURIComponent\<close> is the identity on the digit strings it is applied to here.
\<close>

definition ascii_upper :: "jsstring \<Rightarrow> jsstring" where
  "ascii_upper s = map (\<lambda>c. if 0x61 \<le> c \<and> c \<le> 0x7A then c - 0x20 else c) s"

definition v8_message :: "type_error \<Rightarrow> jsstring" where
  "v8_message e =
     (case e of
        MapNotFunction \<Rightarrow> ascii ''data.memberDetailsList.map is not a function''
      | PropertyOfNull \<Rightarrow> ascii ''Cannot read properties of null (reading 'memberName')''
      | PropertyOfUndefined \<Rightarrow>
          ascii ''Cannot read properties of undefined (reading 'toUpperCase')'')"

definition demo_config :: "bool \<Rightarrow> jsstring \<Rightarrow> config" where
  "demo_config sens code =
     \<lparr>ACCESS_CODE = code, API_BASE = ascii ''https://api.example/family/'',
      SHOW_SENSITIVE = sens, toUpperCase = ascii_upper,
      encodeURIComponent = (\<lambda>t. t), typeErrorMessage = v8_message\<rparr>"

definition text_msg :: "int \<Rightarrow> jsstring \<Rightarrow> msg" where
  "text_msg c t = \<lparr>chat_id = c, msg_text = Some t\<rparr>"

definition answered :: "response \<Rightarrow> replies" where
  "answered res =
     \<lparr>sendFetching = Resolved (), fetched = Resolved res, sendResult = Resolved ()\<rparr>"

definition found :: "body \<Rightarrow> response" where
  "found data = \<lparr>ok = True, status = 200, json = Resolved data\<rparr>"

definition one_session :: "int \<Rightarrow> store" where
  "one_session c =
     \<lparr>authorizedUsers = [c \<mapsto> \<lparr>authorized = True, queries = 0\<rparr>], totalLookups = 0\<rparr>"

definition family_of :: "jsstring \<Rightarrow> memberlist \<Rightarrow> body" where
  "family_of addr ms =
     Object \<lparr>schemeName = Str (ascii ''AAY''), homeDistName = Str (ascii ''Pune''),
             homeStateName = Undefined, address = Str addr, memberDetailsList = ms\<rparr>"

definition person :: "jsstring \<Rightarrow> jsstring \<Rightarrow> jsstring \<Rightarrow> element" where
  "person n rel i =
     Element \<lparr>memberName = Str n, releationship_name = Str rel, memberId = Str i\<rparr>"

section \<open>Auxiliary facts\<close>

lemma replicate_numeral: "replicate (numeral k) x = x # replicate (pred_numeral k) x"
  by (simp add: numeral_eq_Suc)

lemma repeat_single: "repeat [c] n = replicate n c"
  by (induction n) (simp_all add: repeat_def)

lemma repeat_star: "repeat (ascii ''*'') n = replicate n 0x2A"
  by (simp add: ascii_def repeat_single)

lemma valid_not_command:
  assumes "valid_family_id t"
  shows "t \<noteq> []" and "\<not> prefix (ascii ''/'') t"
proof -
  from assms show "t \<noteq> []"
    by (auto simp: valid_family_id_def)
  from assms show "\<not> prefix (ascii ''/'') t"
    by (cases t) (auto simp: valid_family_id_def ascii_def is_digit_def)
qed

text \<open>With a session and a well-formed identifier the handler is its \<open>try\<close> and \<open>catch\<close>.\<close>

lemma handler_with_session:
  assumes "authorizedUsers st (chat_id m) = Some sess"
    and "valid_family_id (text_of m)"
  shows "handler cfg st m r =
     (case try_block cfg st (chat_id m) sess (text_of m) r of
        (st', acts, None) \<Rightarrow> (st', acts)
      | (st', acts, Some err) \<Rightarrow>
          (st', acts @ [ConsoleError err,
                        SendMessage (chat_id m) (failed_prefix @ message_of cfg err)]))"
  using assms valid_not_command[OF assms(2)]
  by (simp add: handler_def Let_def)

lemma handler_invalid:
  assumes "authorizedUsers st (chat_id m) = Some sess"
    and "\<not> valid_family_id (text_of m)"
  shows "fst (handler cfg st m r) = st"
  using assms by (simp add: handler_def Let_def)

lemma fst_try_block:
  "fst (try_block cfg st c sess t r) =
     (if sendFetching r = Resolved () \<and>
         (\<exists>res data. fetched r = Resolved res \<and> ok res \<and> json res = Resolved data \<and>
            body_truthy data \<and> list_truthy (get_memberDetailsList data))
      then st\<lparr>authorizedUsers := (authorizedUsers st)(c \<mapsto> sess\<lparr>queries := queries sess + 1\<rparr>),
              totalLookups := totalLookups st + 1\<rparr>
      else st)"
  by (auto simp: try_block_def Let_def split: promise.splits sum.splits)

lemma fst_handler_session:
  assumes "authorizedUsers st (chat_id m) = Some sess"
  shows "fst (handler cfg st m r) =
     (if valid_family_id (text_of m) \<and>
         sendFetching r = Resolved () \<and>
         (\<exists>res data. fetched r = Resolved res \<and> ok res \<and> json res = Resolved data \<and>
            body_truthy data \<and> list_truthy (get_memberDetailsList data))
      then st\<lparr>authorizedUsers :=
                (authorizedUsers st)(chat_id m \<mapsto> sess\<lparr>queries := queries sess + 1\<rparr>),
              totalLookups := totalLookups st + 1\<rparr>
      else st)"
proof (cases "valid_family_id (text_of m)")
  case True
  have "fst (handler cfg st m r) = fst (try_block cfg st (chat_id m) sess (text_of m) r)"
    by (simp add: handler_with_session[OF assms True] split: prod.splits option.splits)
  with True show ?thesis
    by (simp only: fst_try_block) simp
next
  case False
  with handler_invalid[OF assms False] show ?thesis
    by simp
qed

lemma handler_no_session:
  assumes "authorizedUsers st (chat_id m) = None"
  shows "handler cfg st m r =
     (if text_of m = [] \<or> prefix (ascii ''/'') (text_of m) then (st, [])
      else if text_of m = ACCESS_CODE cfg
      then (st\<lparr>authorizedUsers :=
                 (authorizedUsers st)(chat_id m \<mapsto> \<lparr>authorized = True, queries = 0\<rparr>)\<rparr>,
            [SendMessage (chat_id m) granted_text])
      else (st, [SendMessage (chat_id m) restricted_text]))"
  using assms by (simp add: handler_def Let_def)

text \<open>The three ways in which one message can change the store.\<close>

lemma handler_store_cases:
  "fst (handler cfg st m r) = st \<or>
   (authorizedUsers st (chat_id m) = None \<and>
    fst (handler cfg st m r) =
      st\<lparr>authorizedUsers :=
           (authorizedUsers st)(chat_id m \<mapsto> \<lparr>authorized = True, queries = 0\<rparr>)\<rparr>) \<or>
   (\<exists>sess. authorizedUsers st (chat_id m) = Some sess \<and>
    fst (handler cfg st m r) =
      st\<lparr>authorizedUsers :=
           (authorizedUsers st)(chat_id m \<mapsto> sess\<lparr>queries := queries sess + 1\<rparr>),
         totalLookups := totalLookups st + 1\<rparr>)"
proof (cases "authorizedUsers st (chat_id m)")
  case None
  then show ?thesis
    by (simp add: handler_no_session)
next
  case (Some sess)
  then show ?thesis
    by (simp add: fst_handler_session)
qed

lemma step_authorized:
  assumes "authorizedUsers st c = Some s" and "authorized s"
  shows "\<exists>s'. authorizedUsers (fst (handler cfg st m r)) c = Some s' \<and> authorized s'"
  using handler_store_cases[of cfg st m r] assms
  by (cases "c = chat_id m") auto

lemma run_authorized:
  assumes "authorizedUsers st c = Some s" and "authorized s"
  shows "\<exists>s'. authorizedUsers (run cfg st evs) c = Some s' \<and> authorized s'"
  using assms
proof (induction evs arbitrary: st s)
  case Nil
  then show ?case by simp
next
  case (Cons ev evs)
  obtain m r where ev: "ev = (m, r)"
    by (cases ev)
  from step_authorized[OF Cons.prems, of cfg m r]
  obtain s' where "authorizedUsers (fst (handler cfg st m r)) c = Some s'" and "authorized s'"
    by blast
  from Cons.IH[OF this] show ?case
    by (simp add: ev)
qed

lemma step_bounded:
  assumes "\<And>c s. authorizedUsers st c = Some s \<Longrightarrow> queries s \<le> totalLookups st"
    and "authorizedUsers (fst (handler cfg st m r)) c = Some s"
  shows "queries s \<le> totalLookups (fst (handler cfg st m r))"
  using handler_store_cases[of cfg st m r]
proof (elim disjE exE conjE)
  assume "fst (handler cfg st m r) = st"
  with assms show ?thesis
    by simp
next
  assume eq: "fst (handler cfg st m r) =
      st\<lparr>authorizedUsers :=
           (authorizedUsers st)(chat_id m \<mapsto> \<lparr>authorized = True, queries = 0\<rparr>)\<rparr>"
  with assms(2) have "s = \<lparr>authorized = True, queries = 0\<rparr> \<or> authorizedUsers st c = Some s"
    by (cases "c = chat_id m") simp_all
  then show ?thesis
  proof
    assume "s = \<lparr>authorized = True, queries = 0\<rparr>"
    then show ?thesis by simp
  next
    assume "authorizedUsers st c = Some s"
    from assms(1)[OF this] show ?thesis
      by (simp add: eq)
  qed
next
  fix sess
  assume sess: "authorizedUsers st (chat_id m) = Some sess"
    and eq: "fst (handler cfg st m r) =
      st\<lparr>authorizedUsers :=
           (authorizedUsers st)(chat_id m \<mapsto> sess\<lparr>queries := queries sess + 1\<rparr>),
         totalLookups := totalLookups st + 1\<rparr>"
  from assms(2) eq
  have "s = sess\<lparr>queries := queries sess + 1\<rparr> \<or> authorizedUsers st c = Some s"
    by (cases "c = chat_id m") simp_all
  then show ?thesis
  proof
    assume "s = sess\<lparr>queries := queries sess + 1\<rparr>"
    with assms(1)[OF sess] show ?thesis
      by (simp add: eq)
  next
    assume "authorizedUsers st c = Some s"
    from assms(1)[OF this] show ?thesis
      by (simp add: eq)
  qed
qed

lemma run_bounded:
  assumes "\<And>c s. authorizedUsers st c = Some s \<Longrightarrow> queries s \<le> totalLookups st"
    and "authorizedUsers (run cfg st evs) c = Some s"
  shows "queries s \<le> totalLookups (run cfg st evs)"
  using assms
proof (induction evs arbitrary: st)
  case Nil
  then show ?case by simp
next
  case (Cons ev evs)
  obtain m r where ev: "ev = (m, r)"
    by (cases ev)
  show ?case
    unfolding ev run.simps
  proof (rule Cons.IH[of "fst (handler cfg st m r)"])
    fix c' s'
    assume "authorizedUsers (fst (handler cfg st m r)) c' = Some s'"
    then show "queries s' \<le> totalLookups (fst (handler cfg st m r))"
      using step_bounded Cons.prems(1) by blast
  next
    from Cons.prems(2) show "authorizedUsers (run cfg (fst (handler cfg st m r)) evs) c = Some s"
      by (simp add: ev)
  qed
qed

lemma step_all_authorized:
  assumes "\<And>c s. authorizedUsers st c = Some s \<Longrightarrow> authorized s"
    and "authorizedUsers (fst (handler cfg st m r)) c = Some s"
  shows "authorized s"
  using handler_store_cases[of cfg st m r] assms(2) assms(1)
  by (cases "c = chat_id m") auto

lemma run_all_authorized:
  assumes "\<And>c s. authorizedUsers st c = Some s \<Longrightarrow> authorized s"
    and "authorizedUsers (run cfg st evs) c = Some s"
  shows "authorized s"
  using assms
proof (induction evs arbitrary: st)
  case Nil
  then show ?case by simp
next
  case (Cons ev evs)
  obtain m r where ev: "ev = (m, r)"
    by (cases ev)
  show ?case
  proof (rule Cons.IH[of "fst (handler cfg st m r)"])
    fix c' s'
    assume "authorizedUsers (fst (handler cfg st m r)) c' = Some s'"
    then show "authorized s'"
      using step_all_authorized Cons.prems(1) by blast
  next
    from Cons.prems(2) show "authorizedUsers (run cfg (fst (handler cfg st m r)) evs) c = Some s"
      by (simp add: ev)
  qed
qed

lemma initial_empty: "authorizedUsers initial c = None"
  by (simp add: initial_def)

text \<open>With a session, the handler does not read the access code.\<close>

lemma memberLine_code: "memberLine (cfg\<lparr>ACCESS_CODE := x\<rparr>) i e = memberLine cfg i e"
  by (cases e) (simp_all add: memberLine_def)

lemma map_members_code: "map_members (cfg\<lparr>ACCESS_CODE := x\<rparr>) i es = map_members cfg i es"
  by (induction es arbitrary: i) (simp_all add: memberLine_code split: sum.splits)

lemma render_code: "render (cfg\<lparr>ACCESS_CODE := x\<rparr>) d = render cfg d"
  by (cases "get_memberDetailsList d") (simp_all add: render_def map_members_code)

lemma message_of_code: "message_of (cfg\<lparr>ACCESS_CODE := x\<rparr>) e = message_of cfg e"
  by (cases e) (simp_all add: message_of_def)

lemma try_block_code:
  "try_block (cfg\<lparr>ACCESS_CODE := x\<rparr>) st c sess t r = try_block cfg st c sess t r"
  by (auto simp: try_block_def render_code Let_def split: promise.splits)

lemma handler_session_code:
  assumes "authorizedUsers st (chat_id m) = Some sess"
  shows "handler (cfg\<lparr>ACCESS_CODE := x\<rparr>) st m r = handler cfg st m r"
  using assms by (simp add: handler_def Let_def try_block_code message_of_code)

text \<open>Rendering a record whose names and identifiers are strings.\<close>

lemma maskName_Str:
  "maskName up (Str n) =
     Inr (if n = [] then ascii ''N/A''
          else up [hd n] @ ascii ''.'' @ replicate (length n - 1) 0x2A)"
  by (cases n) (simp_all add: maskName_def repeat_star)

lemma banner_not_notice: "warning_banner \<noteq> masked_notice"
  by (simp add: warning_banner_def masked_notice_def)

text \<open>The message as a concatenation, line by line.\<close>

lemma join_Cons: "join sep (x # xs) = x @ concat (map (\<lambda>y. sep @ y) xs)"
  by (induction xs arbitrary: x) simp_all

lemma join_message:
  "join newline [a, b, c, d, e, f, [], g, h, [], k] =
     a @ newline @ b @ newline @ c @ newline @ d @ newline @ e @ newline @ f @ newline @
     newline @ g @ newline @ h @ newline @ newline @ k"
  by simp

lemma toString_or_na:
  "toString (or_na v) = (if truthy v then toString v else ascii ''N/A'')"
  by (simp add: or_na_def)

lemma header_lines:
  "safeLine (ascii ''Scheme'') (or_na v) =
     ascii ''Scheme: '' @ (if truthy v then toString v else ascii ''N/A'')"
  "safeLine (ascii ''District'') (or_na v) =
     ascii ''District: '' @ (if truthy v then toString v else ascii ''N/A'')"
  "safeLine (ascii ''State'') (or_na v) =
     ascii ''State: '' @ (if truthy v then toString v else ascii ''N/A'')"
  by (cases v; simp add: safeLine_def or_na_def nullish_na_def ascii_def)+

lemma address_line:
  "safeLine (ascii ''Address'') v =
     ascii ''Address: '' @
     (if v = Undefined \<or> v = Null then ascii ''N/A'' else toString v)"
  by (cases v) (simp_all add: safeLine_def nullish_na_def ascii_def)

lemma memberLine_named:
  assumes "memberName mem = Str n"
  shows "memberLine cfg k (Element mem) =
     Inr (decimal (k + 1) @ ascii ''. '' @
          (if SHOW_SENSITIVE cfg then n
           else if n = [] then ascii ''N/A''
           else toUpperCase cfg [hd n] @ ascii ''.'' @ replicate (length n - 1) 0x2A) @
          [0x20, 0x2014, 0x20] @
          (if truthy (releationship_name mem) then toString (releationship_name mem)
           else ascii ''N/A'') @
          newline @ ascii ''   '' @ [0xD83C, 0xDD94, 0x20] @
          (if SHOW_SENSITIVE cfg then toString (memberId mem)
           else maskString (memberId mem) 4))"
  by (simp add: memberLine_def assms maskName_Str Let_def toString_or_na)

lemma map_members_named:
  "map_members cfg k
     (map (\<lambda>(n, rel, i).
        Element \<lparr>memberName = Str n, releationship_name = rel, memberId = Str i\<rparr>) ts) =
   Inr (map (\<lambda>(j, n, rel, i).
          decimal (j + 1) @ ascii ''. '' @
          (if SHOW_SENSITIVE cfg then n
           else if n = [] then ascii ''N/A''
           else toUpperCase cfg [hd n] @ ascii ''.'' @ replicate (length n - 1) 0x2A) @
          [0x20, 0x2014, 0x20] @
          (if truthy rel then toString rel else ascii ''N/A'') @
          newline @ ascii ''   '' @ [0xD83C, 0xDD94, 0x20] @
          (if SHOW_SENSITIVE cfg then i else maskString (Str i) 4))
        (enumerate k ts))"
proof (induction ts arbitrary: k)
  case Nil
  show ?case by simp
next
  case (Cons t ts)
  obtain n rel i where t: "t = (n, rel, i)"
    by (cases t)
  have line: "memberLine cfg k
      (Element \<lparr>memberName = Str n, releationship_name = rel, memberId = Str i\<rparr>) =
     Inr (decimal (k + 1) @ ascii ''. '' @
          (if SHOW_SENSITIVE cfg then n
           else if n = [] then ascii ''N/A''
           else toUpperCase cfg [hd n] @ ascii ''.'' @ replicate (length n - 1) 0x2A) @
          [0x20, 0x2014, 0x20] @
          (if truthy rel then toString rel else ascii ''N/A'') @
          newline @ ascii ''   '' @ [0xD83C, 0xDD94, 0x20] @
          (if SHOW_SENSITIVE cfg then i else maskString (Str i) 4))"
    by (simp add: memberLine_named[of _ n])
  show ?case
    by (simp only: t list.map prod.case map_members.simps line sum.case
        Cons.IH enumerate_simps Suc_eq_plus1)
qed

lemma falsy_list_cases:
  "(\<not> list_truthy l) =
     (l \<in> {NotArray Undefined, NotArray Null, NotArray (Bool False),
            NotArray (Num (ascii ''0'')), NotArray (Str [])})"
proof (cases l)
  case (NotArray v)
  then show ?thesis
    by (cases v) auto
next
  case (Array ms)
  then show ?thesis
    by simp
qed

lemma not_found_condition:
  "(\<not> body_truthy data \<or> \<not> list_truthy (get_memberDetailsList data)) =
     ((\<exists>v. data = Primitive v) \<or>
      (\<exists>fam. data = Object fam \<and>
         memberDetailsList fam \<in>
           {NotArray Undefined, NotArray Null, NotArray (Bool False),
            NotArray (Num (ascii ''0'')), NotArray (Str [])}))"
  by (cases data) (simp_all add: falsy_list_cases)

lemma join_blank_line:
  "join (newline @ newline) xs =
     (case xs of [] \<Rightarrow> [] | x # ys \<Rightarrow> x @ concat (map (\<lambda>y. newline @ newline @ y) ys))"
  by (cases xs) (simp_all add: join_Cons)

lemma render_two_named:
  assumes "memberDetailsList fam = Array [Element m1, Element m2]"
    and "memberName m1 = Str n1" and "memberName m2 = Str n2"
  shows "render cfg (Object fam) =
     Inr (header_text @ newline @
          rule_text @ newline @
          ascii ''Scheme: '' @
            (if truthy (schemeName fam) then toString (schemeName fam)
             else ascii ''N/A'') @ newline @
          ascii ''District: '' @
            (if truthy (homeDistName fam) then toString (homeDistName fam)
             else ascii ''N/A'') @ newline @
          ascii ''State: '' @
            (if truthy (homeStateName fam) then toString (homeStateName fam)
             else ascii ''N/A'') @ newline @
          ascii ''Address: '' @
            (if SHOW_SENSITIVE cfg
             then if address fam = Undefined \<or> address fam = Null then ascii ''N/A''
                  else toString (address fam)
             else maskString (address fam) 6) @ newline @
          newline @
          members_header @ newline @
          (ascii ''1. '' @
           (if SHOW_SENSITIVE cfg then n1
            else if n1 = [] then ascii ''N/A''
            else toUpperCase cfg [hd n1] @ ascii ''.'' @ replicate (length n1 - 1) 0x2A) @
           [0x20, 0x2014, 0x20] @
           (if truthy (releationship_name m1) then toString (releationship_name m1)
            else ascii ''N/A'') @
           newline @ ascii ''   '' @ [0xD83C, 0xDD94, 0x20] @
           (if SHOW_SENSITIVE cfg then toString (memberId m1)
            else maskString (memberId m1) 4)) @
          newline @ newline @
          (ascii ''2. '' @
           (if SHOW_SENSITIVE cfg then n2
            else if n2 = [] then ascii ''N/A''
            else toUpperCase cfg [hd n2] @ ascii ''.'' @ replicate (length n2 - 1) 0x2A) @
           [0x20, 0x2014, 0x20] @
           (if truthy (releationship_name m2) then toString (releationship_name m2)
            else ascii ''N/A'') @
           newline @ ascii ''   '' @ [0xD83C, 0xDD94, 0x20] @
           (if SHOW_SENSITIVE cfg then toString (memberId m2)
            else maskString (memberId m2) 4)) @ newline @
          newline @
          (if SHOW_SENSITIVE cfg then warning_banner else masked_notice))"
proof -
  have one: "decimal (0 + 1) @ ascii ''. '' = ascii ''1. ''"
    and two: "decimal (0 + 1 + 1) @ ascii ''. '' = ascii ''2. ''"
    by (simp_all add: decimal.simps ascii_def)
  have addr: "safeLine (ascii ''Address'')
        (if SHOW_SENSITIVE cfg then address fam else Str (maskString (address fam) 6)) =
      ascii ''Address: '' @
        (if SHOW_SENSITIVE cfg
         then if address fam = Undefined \<or> address fam = Null then ascii ''N/A''
              else toString (address fam)
         else maskString (address fam) 6)"
    by (simp add: address_line)
  have ms: "map_members cfg 0 [Element m1, Element m2] =
      Inr [ascii ''1. '' @
           (if SHOW_SENSITIVE cfg then n1
            else if n1 = [] then ascii ''N/A''
            else toUpperCase cfg [hd n1] @ ascii ''.'' @ replicate (length n1 - 1) 0x2A) @
           [0x20, 0x2014, 0x20] @
           (if truthy (releationship_name m1) then toString (releationship_name m1)
            else ascii ''N/A'') @
           newline @ ascii ''   '' @ [0xD83C, 0xDD94, 0x20] @
           (if SHOW_SENSITIVE cfg then toString (memberId m1)
            else maskString (memberId m1) 4),
           ascii ''2. '' @
           (if SHOW_SENSITIVE cfg then n2
            else if n2 = [] then ascii ''N/A''
            else toUpperCase cfg [hd n2] @ ascii ''.'' @ replicate (length n2 - 1) 0x2A) @
           [0x20, 0x2014, 0x20] @
           (if truthy (releationship_name m2) then toString (releationship_name m2)
            else ascii ''N/A'') @
           newline @ ascii ''   '' @ [0xD83C, 0xDD94, 0x20] @
           (if SHOW_SENSITIVE cfg then toString (memberId m2)
            else maskString (memberId m2) 4)]"
    by (simp only: map_members.simps memberLine_named[OF assms(2)] memberLine_named[OF assms(3)]
        sum.case one two append_assoc[symmetric])
  show ?thesis
    unfolding render_def Let_def get_field.simps get_memberDetailsList.simps assms(1)
      memberlist.case ms sum.case join_message header_lines addr join.simps
    by (simp only: append_assoc append_Nil)
qed

lemma render_no_members:
  assumes "memberDetailsList fam = Array []"
  shows "render cfg (Object fam) =
     Inr (header_text @ newline @
          rule_text @ newline @
          ascii ''Scheme: '' @
            (if truthy (schemeName fam) then toString (schemeName fam)
             else ascii ''N/A'') @ newline @
          ascii ''District: '' @
            (if truthy (homeDistName fam) then toString (homeDistName fam)
             else ascii ''N/A'') @ newline @
          ascii ''State: '' @
            (if truthy (homeStateName fam) then toString (homeStateName fam)
             else ascii ''N/A'') @ newline @
          ascii ''Address: '' @
            (if SHOW_SENSITIVE cfg
             then if address fam = Undefined \<or> address fam = Null then ascii ''N/A''
                  else toString (address fam)
             else maskString (address fam) 6) @ newline @
          newline @
          members_header @ newline @
          newline @
          newline @
          (if SHOW_SENSITIVE cfg then warning_banner else masked_notice))"
proof -
  have addr: "safeLine (ascii ''Address'')
        (if SHOW_SENSITIVE cfg then address fam else Str (maskString (address fam) 6)) =
      ascii ''Address: '' @
        (if SHOW_SENSITIVE cfg
         then if address fam = Undefined \<or> address fam = Null then ascii ''N/A''
              else toString (address fam)
         else maskString (address fam) 6)"
    by (simp add: address_line)
  show ?thesis
    unfolding render_def Let_def get_field.simps get_memberDetailsList.simps assms
      memberlist.case map_members.simps sum.case join_message header_lines addr join.simps
    by (simp only: append_assoc append_Nil)
qed

text \<open>The handler on a response that is ok and parsed.\<close>

lemma handler_parsed:
  assumes "authorizedUsers st (chat_id m) = Some sess"
    and "valid_family_id (text_of m)"
    and "sendFetching r = Resolved ()"
    and "fetched r = Resolved res" and "ok res" and "json res = Resolved data"
  shows "handler cfg st m r =
     (if \<not> body_truthy data \<or> \<not> list_truthy (get_memberDetailsList data)
      then (st, [SendMessage (chat_id m) fetching_text,
                 Fetch (API_BASE cfg @ encodeURIComponent cfg (text_of m)),
                 SendMessage (chat_id m) not_found_text])
      else (st\<lparr>authorizedUsers :=
                 (authorizedUsers st)(chat_id m \<mapsto> sess\<lparr>queries := queries sess + 1\<rparr>),
               totalLookups := totalLookups st + 1\<rparr>,
            [SendMessage (chat_id m) fetching_text,
             Fetch (API_BASE cfg @ encodeURIComponent cfg (text_of m))] @
            (case render cfg data of
               Inl e \<Rightarrow> [ConsoleError e,
                         SendMessage (chat_id m) (failed_prefix @ message_of cfg e)]
             | Inr message \<Rightarrow>
                 SendMarkdown (chat_id m) message #
                 (case sendResult r of
                    Resolved u \<Rightarrow> []
                  | Rejected e \<Rightarrow> [ConsoleError (Rejection e),
                                  SendMessage (chat_id m) (failed_prefix @ e)]))))"
  unfolding handler_with_session[OF assms(1,2)]
  using assms(3-6)
  by (simp add: try_block_def Let_def message_of_def split: sum.splits promise.splits)

lemma not_found_not_fetching: "not_found_text \<noteq> fetching_text"
  by (simp add: not_found_text_def fetching_text_def)

lemma not_found_not_failed: "not_found_text \<noteq> failed_prefix @ x"
  by (simp add: not_found_text_def failed_prefix_def ascii_def)

text \<open>The concrete inputs, evaluated.\<close>

lemma id_valid: "valid_family_id (ascii ''116440054586'')"
  by (simp add: valid_family_id_def ascii_def is_digit_def)

lemma chat_id_text_msg: "chat_id (text_msg c t) = c"
  by (simp add: text_msg_def)

lemma text_of_id: "text_of (text_msg c (ascii ''116440054586'')) = ascii ''116440054586''"
  by (simp add: text_of_def text_msg_def trim_def ascii_def is_space_def)

lemma one_session_total: "totalLookups (one_session c) = 0"
  by (simp add: one_session_def)

lemma one_session_lookup:
  "authorizedUsers (one_session c) c = Some \<lparr>authorized = True, queries = 0\<rparr>"
  by (simp add: one_session_def)

lemma decimal_500: "decimal 500 = ascii ''500''"
  by (simp add: decimal.simps ascii_def)

lemma text_of_code: "text_of (text_msg c (ascii ''1234'')) = ascii ''1234''"
  by (simp add: text_of_def text_msg_def trim_def ascii_def is_space_def)

lemma text_of_wrong: "text_of (text_msg c (ascii ''wrong'')) = ascii ''wrong''"
  by (simp add: text_of_def text_msg_def trim_def ascii_def is_space_def)

lemma code_facts:
  "ascii ''1234'' \<noteq> []" "\<not> prefix (ascii ''/'') (ascii ''1234'')"
  "ascii ''wrong'' \<noteq> []" "\<not> prefix (ascii ''/'') (ascii ''wrong'')"
  "ascii ''wrong'' \<noteq> ascii ''1234''" "\<not> valid_family_id (ascii ''1234'')"
  by (simp_all add: ascii_def valid_family_id_def)

lemma demo_code: "ACCESS_CODE (demo_config sens code) = code"
  by (simp add: demo_config_def)

lemma handler_grant_demo:
  "handler (demo_config sens (ascii ''1234'')) initial (text_msg 7 (ascii ''1234'')) r =
     (one_session 7, [SendMessage 7 granted_text])"
  by (simp add: handler_no_session initial_empty chat_id_text_msg text_of_code demo_code
      code_facts initial_def one_session_def)

lemma handler_wrong_demo:
  "handler (demo_config sens (ascii ''1234'')) initial (text_msg 7 (ascii ''wrong'')) r =
     (initial, [SendMessage 7 restricted_text])"
  by (simp add: handler_no_session initial_empty chat_id_text_msg text_of_wrong demo_code
      code_facts)

lemma demo_lookup_store:
  "fst (handler (demo_config sens code) (one_session 7) (text_msg 7 (ascii ''116440054586''))
         (answered (found (family_of addr (Array ms))))) =
     \<lparr>authorizedUsers = [7 \<mapsto> \<lparr>authorized = True, queries = 1\<rparr>], totalLookups = 1\<rparr>"
proof -
  have s: "authorizedUsers (one_session 7) (chat_id (text_msg 7 (ascii ''116440054586''))) =
     Some \<lparr>authorized = True, queries = 0\<rparr>"
    by (simp add: one_session_lookup chat_id_text_msg)
  show ?thesis
    unfolding fst_handler_session[OF s]
    by (simp add: text_of_id id_valid chat_id_text_msg answered_def found_def family_of_def
        one_session_def)
qed

lemma run_wrong_then_code:
  "run (demo_config sens (ascii ''1234'')) initial
     [(text_msg 7 (ascii ''wrong''), r1), (text_msg 7 (ascii ''1234''), r2)] = one_session 7"
  by (simp add: handler_wrong_demo handler_grant_demo)

lemma text_of_code6: "text_of (text_msg c (ascii ''123456'')) = ascii ''123456''"
  by (simp add: text_of_def text_msg_def trim_def ascii_def is_space_def)

lemma code6_facts:
  "ascii ''123456'' \<noteq> []" "\<not> prefix (ascii ''/'') (ascii ''123456'')"
  "ascii ''wrong'' \<noteq> ascii ''123456''" "valid_family_id (ascii ''123456'')"
  by (simp_all add: ascii_def valid_family_id_def is_digit_def)

lemma person_eq:
  "person n rel i = Element \<lparr>memberName = Str n, releationship_name = Str rel, memberId = Str i\<rparr>"
  by (simp add: person_def)

lemma decimal_small: "decimal (0 + 1) = ascii ''1''" "decimal (1 + 1) = ascii ''2''"
  "decimal (Suc 0) = ascii ''1''" "decimal (Suc (Suc 0)) = ascii ''2''"
  by (simp_all add: decimal.simps ascii_def)

lemma demo_fields:
  "API_BASE (demo_config sens code) = ascii ''https://api.example/family/''"
  "encodeURIComponent (demo_config sens code) t = t"
  "SHOW_SENSITIVE (demo_config sens code) = sens"
  "toUpperCase (demo_config sens code) = ascii_upper"
  by (simp_all add: demo_config_def)

lemma demo_session_valid:
  "authorizedUsers (one_session 7) (chat_id (text_msg 7 (ascii ''116440054586''))) =
     Some \<lparr>authorized = True, queries = 0\<rparr>"
  "valid_family_id (text_of (text_msg 7 (ascii ''116440054586'')))"
  by (simp_all add: one_session_lookup chat_id_text_msg text_of_id id_valid)

lemma answered_fields:
  "sendFetching (answered res) = Resolved ()" "fetched (answered res) = Resolved res"
  "sendResult (answered res) = Resolved ()"
  "ok (found d)" "json (found d) = Resolved d"
  by (simp_all add: answered_def found_def)

section \<open>Masking\<close>

text \<open>
  C5, as amended. For a non-empty string \<open>v\<close> and \<open>k > 0\<close>, \<open>maskString(v, k)\<close> has the
  length of \<open>v\<close>; when \<open>v\<close> is longer than \<open>k\<close> its last \<open>k\<close> characters are those of
  \<open>v\<close> and all characters before them are asterisks; otherwise it consists of
  asterisks only.
\<close>

theorem maskString_keeps_tail:
  assumes "v \<noteq> []" and "0 < k"
  shows "length (maskString (Str v) k) = length v \<and>
         (k < length v \<longrightarrow>
            drop (length v - k) (maskString (Str v) k) = drop (length v - k) v \<and>
            take (length v - k) (maskString (Str v) k) = replicate (length v - k) 0x2A) \<and>
         (length v \<le> k \<longrightarrow> maskString (Str v) k = replicate (length v) 0x2A)"
  using assms by (simp add: maskString_def repeat_star slice_last_def Let_def)

text \<open>The theorem at a twelve-digit identifier with \<open>k = 4\<close>.\<close>

theorem maskString_keeps_tail_witness:
  "ascii ''116440054586'' \<noteq> [] \<and> (0::nat) < 4 \<and>
   length (maskString (Str (ascii ''116440054586'')) 4) = length (ascii ''116440054586'') \<and>
   drop (length (ascii ''116440054586'') - 4) (maskString (Str (ascii ''116440054586'')) 4) =
     ascii ''4586'' \<and>
   take (length (ascii ''116440054586'') - 4) (maskString (Str (ascii ''116440054586'')) 4) =
     ascii ''********''"
proof -
  have h1: "ascii ''116440054586'' \<noteq> []"
    by (simp add: ascii_def)
  have h2: "(0::nat) < 4"
    by simp
  have longer: "4 < length (ascii ''116440054586'')"
    by (simp add: ascii_def)
  have tail: "drop (length (ascii ''116440054586'') - 4) (ascii ''116440054586'') = ascii ''4586''"
    by (simp add: ascii_def)
  have stars: "replicate (length (ascii ''116440054586'') - 4) (0x2A :: 16 word) = ascii ''********''"
    by (simp add: ascii_def replicate_numeral)
  from maskString_keeps_tail[OF h1 h2] longer tail stars h1 h2 show ?thesis
    by presburger
qed

text \<open>
  C5 as stated fails at the empty string, for which the guard \<open>if (!str)\<close> returns the
  placeholder of three characters. It also fails at \<open>k = 0\<close>, where \<open>s.slice(-0)\<close> is
  the whole string and the result is twice as long as \<open>v\<close>.
\<close>

theorem maskString_empty_counterexample:
  "maskString (Str []) 4 = ascii ''N/A'' \<and>
   length (maskString (Str []) 4) \<noteq> length ([] :: jsstring) \<and>
   maskString (Str (ascii ''4586'')) 0 = ascii ''****4586'' \<and>
   length (maskString (Str (ascii ''4586'')) 0) \<noteq> length (ascii ''4586'')"
  by (simp add: maskString_def slice_last_def repeat_single ascii_def replicate_numeral)

text \<open>
  C7. For a non-empty string \<open>v\<close>, \<open>maskName(v)\<close> begins with the upper-cased first
  character of \<open>v\<close> and reveals nothing beyond it: what follows is the separator, a full
  stop, and one asterisk for each further character, so that the output is the same
  for every string with that first character and that length.
\<close>

theorem maskName_first_and_length:
  assumes "v \<noteq> []"
  shows "maskName up (Str v) =
           Inr (up [hd v] @ ascii ''.'' @ replicate (length v - 1) 0x2A) \<and>
         (\<forall>w. w \<noteq> [] \<and> hd w = hd v \<and> length w = length v \<longrightarrow>
              maskName up (Str w) = maskName up (Str v))"
proof -
  have shape: "maskName up (Str u) =
      Inr (up [hd u] @ ascii ''.'' @ replicate (length u - 1) 0x2A)" if "u \<noteq> []" for u
    using that by (cases u) (simp_all add: maskName_def repeat_star)
  show ?thesis
    using assms by (simp add: shape)
qed

theorem maskName_first_and_length_witness:
  "ascii ''anna'' \<noteq> [] \<and>
   maskName ascii_upper (Str (ascii ''anna'')) = Inr (ascii ''A.***'') \<and>
   maskName ascii_upper (Str (ascii ''alok'')) = maskName ascii_upper (Str (ascii ''anna''))"
  using maskName_first_and_length[of "ascii ''anna''" ascii_upper]
  by (simp add: ascii_def ascii_upper_def replicate_numeral)

section \<open>The counters\<close>

text \<open>
  C1, as amended. For a chat that has a session, the handler changes the store only by
  incrementing that session's \<open>queries\<close> and \<open>totalLookups\<close>, both by one or neither. It
  does so exactly when the identifier is well formed, the fetching notice was sent, and
  the response was ok and parsed to a truthy body with a truthy \<open>memberDetailsList\<close>;
  on every other branch (invalid identifier, failed send, transport error, status not
  ok, malformed body, no data) the store is unchanged. The increments precede
  rendering, so they stand whatever rendering and sending the reply do afterwards.
\<close>

theorem counters_advance_exactly_when_found:
  assumes "authorizedUsers st (chat_id m) = Some sess"
  shows "fst (handler cfg st m r) =
     (if valid_family_id (text_of m) \<and>
         sendFetching r = Resolved () \<and>
         (\<exists>res data. fetched r = Resolved res \<and> ok res \<and> json res = Resolved data \<and>
            body_truthy data \<and> list_truthy (get_memberDetailsList data))
      then st\<lparr>authorizedUsers :=
                (authorizedUsers st)(chat_id m \<mapsto> sess\<lparr>queries := queries sess + 1\<rparr>),
              totalLookups := totalLookups st + 1\<rparr>
      else st)"
  using assms by (rule fst_handler_session)

text \<open>
  The theorem for an authorized chat and a valid identifier: a found record (here with
  no members) advances both counters, a response with status 500 neither.
\<close>

theorem counters_advance_exactly_when_found_witness:
  "authorizedUsers (one_session 7) (chat_id (text_msg 7 (ascii ''116440054586''))) =
     Some \<lparr>authorized = True, queries = 0\<rparr> \<and>
   fst (handler (demo_config False (ascii ''1234'')) (one_session 7)
          (text_msg 7 (ascii ''116440054586''))
          (answered (found (family_of (ascii ''12 MG Road'') (Array []))))) =
     (one_session 7)\<lparr>authorizedUsers :=
        (authorizedUsers (one_session 7))(7 \<mapsto> \<lparr>authorized = True, queries = 1\<rparr>),
        totalLookups := 1\<rparr> \<and>
   fst (handler (demo_config False (ascii ''1234'')) (one_session 7)
          (text_msg 7 (ascii ''116440054586''))
          (answered \<lparr>ok = False, status = 500, json = Rejected []\<rparr>)) = one_session 7"
proof -
  have s: "authorizedUsers (one_session 7) (chat_id (text_msg 7 (ascii ''116440054586''))) =
     Some \<lparr>authorized = True, queries = 0\<rparr>"
    by (simp add: one_session_lookup chat_id_text_msg)
  show ?thesis
    using counters_advance_exactly_when_found[OF s, of "demo_config False (ascii ''1234'')"
        "answered (found (family_of (ascii ''12 MG Road'') (Array [])))"]
      counters_advance_exactly_when_found[OF s, of "demo_config False (ascii ''1234'')"
        "answered \<lparr>ok = False, status = 500, json = Rejected []\<rparr>"]
    by (simp add: text_of_id id_valid chat_id_text_msg one_session_total one_session_lookup
        answered_def found_def family_of_def)
qed

text \<open>
  C1 as stated fails when rendering throws: for a body whose member array holds \<open>null\<close>,
  reading \<open>m.memberName\<close> raises a \<open>TypeError\<close>, the user gets the failure notice, and
  both counters have advanced from 0 to 1.
\<close>

theorem counters_advance_before_rendering_counterexample:
  "totalLookups (one_session 7) = 0 \<and>
   map_option queries (authorizedUsers (one_session 7) 7) = Some 0 \<and>
   (case handler (demo_config False (ascii ''1234'')) (one_session 7)
          (text_msg 7 (ascii ''116440054586''))
          (answered (found (family_of (ascii ''12 MG Road'') (Array [NullElement])))) of
      (st', acts) \<Rightarrow>
        totalLookups st' = 1 \<and> map_option queries (authorizedUsers st' 7) = Some 1 \<and>
        acts = [SendMessage 7 fetching_text,
                Fetch (ascii ''https://api.example/family/'' @ ascii ''116440054586''),
                ConsoleError (TypeError PropertyOfNull),
                SendMessage 7 (failed_prefix @
                  ascii ''Cannot read properties of null (reading 'memberName')'')])"
proof -
  have s: "authorizedUsers (one_session 7) (chat_id (text_msg 7 (ascii ''116440054586''))) =
     Some \<lparr>authorized = True, queries = 0\<rparr>"
    by (simp add: one_session_lookup chat_id_text_msg)
  have v: "valid_family_id (text_of (text_msg 7 (ascii ''116440054586'')))"
    by (simp add: text_of_id id_valid)
  show ?thesis
    unfolding handler_with_session[OF s v]
    by (simp add: text_of_id chat_id_text_msg try_block_def answered_def found_def
        family_of_def render_def memberLine_def demo_config_def message_of_def
        v8_message_def one_session_def)
qed

section \<open>The failure notice\<close>

text \<open>
  C2, as amended. For every lookup failure on a chat with a session (transport error,
  status not ok, malformed body), the handler emits exactly one notice after the
  fetching notice, and that notice is the fixed prefix followed by the message of the
  error: the text of the rejection, or \<open>HTTP\<close> and the status. The same error is
  passed to \<open>console.error\<close>.
\<close>

theorem failure_notice_carries_error_message:
  assumes "authorizedUsers st (chat_id m) = Some sess"
    and "valid_family_id (text_of m)"
    and "sendFetching r = Resolved ()"
  shows "(\<forall>msg. fetched r = Rejected msg \<longrightarrow>
            snd (handler cfg st m r) =
              [SendMessage (chat_id m) fetching_text,
               Fetch (API_BASE cfg @ encodeURIComponent cfg (text_of m)),
               ConsoleError (Rejection msg),
               SendMessage (chat_id m) (failed_prefix @ msg)]) \<and>
         (\<forall>res. fetched r = Resolved res \<and> \<not> ok res \<longrightarrow>
            snd (handler cfg st m r) =
              [SendMessage (chat_id m) fetching_text,
               Fetch (API_BASE cfg @ encodeURIComponent cfg (text_of m)),
               ConsoleError (HttpError (status res)),
               SendMessage (chat_id m) (failed_prefix @ ascii ''HTTP '' @ decimal (status res))]) \<and>
         (\<forall>res msg. fetched r = Resolved res \<and> ok res \<and> json res = Rejected msg \<longrightarrow>
            snd (handler cfg st m r) =
              [SendMessage (chat_id m) fetching_text,
               Fetch (API_BASE cfg @ encodeURIComponent cfg (text_of m)),
               ConsoleError (Rejection msg),
               SendMessage (chat_id m) (failed_prefix @ msg)])"
  unfolding handler_with_session[OF assms(1,2)]
  using assms(3)
  by (simp add: try_block_def Let_def message_of_def)

text \<open>The theorem for a transport error on an authorized chat.\<close>

theorem failure_notice_carries_error_message_witness:
  "authorizedUsers (one_session 7) (chat_id (text_msg 7 (ascii ''116440054586''))) =
     Some \<lparr>authorized = True, queries = 0\<rparr> \<and>
   valid_family_id (text_of (text_msg 7 (ascii ''116440054586''))) \<and>
   snd (handler (demo_config False (ascii ''1234'')) (one_session 7)
          (text_msg 7 (ascii ''116440054586''))
          \<lparr>sendFetching = Resolved (),
            fetched = Rejected (ascii ''socket hang up''),
            sendResult = Resolved ()\<rparr>) =
     [SendMessage 7 fetching_text,
      Fetch (ascii ''https://api.example/family/'' @ ascii ''116440054586''),
      ConsoleError (Rejection (ascii ''socket hang up'')),
      SendMessage 7 (failed_prefix @ ascii ''socket hang up'')]"
proof -
  have s: "authorizedUsers (one_session 7) (chat_id (text_msg 7 (ascii ''116440054586''))) =
     Some \<lparr>authorized = True, queries = 0\<rparr>"
    by (simp add: one_session_lookup chat_id_text_msg)
  have v: "valid_family_id (text_of (text_msg 7 (ascii ''116440054586'')))"
    by (simp add: text_of_id id_valid)
  have f: "sendFetching \<lparr>sendFetching = Resolved (),
            fetched = Rejected (ascii ''socket hang up''),
            sendResult = Resolved ()\<rparr> = Resolved ()"
    by simp
  from failure_notice_carries_error_message[OF s v f, of "demo_config False (ascii ''1234'')"] s v
  show ?thesis
    by (simp add: chat_id_text_msg text_of_id demo_config_def)
qed

text \<open>
  C2 as stated fails for a response with status 500: the notice sent to the user ends
  with the message of the error, \<open>HTTP 500\<close>.
\<close>

theorem failure_notice_shows_status_counterexample:
  "snd (handler (demo_config False (ascii ''1234'')) (one_session 7)
          (text_msg 7 (ascii ''116440054586''))
          (answered \<lparr>ok = False, status = 500, json = Resolved (Primitive Null)\<rparr>)) =
     [SendMessage 7 fetching_text,
      Fetch (ascii ''https://api.example/family/'' @ ascii ''116440054586''),
      ConsoleError (HttpError 500),
      SendMessage 7 (failed_prefix @ ascii ''HTTP '' @ ascii ''500'')] \<and>
   message_of (demo_config False (ascii ''1234'')) (HttpError 500) = ascii ''HTTP '' @ ascii ''500'' \<and>
   suffix (ascii ''HTTP '' @ ascii ''500'') (failed_prefix @ ascii ''HTTP '' @ ascii ''500'')"
proof -
  have s: "authorizedUsers (one_session 7) (chat_id (text_msg 7 (ascii ''116440054586''))) =
     Some \<lparr>authorized = True, queries = 0\<rparr>"
    by (simp add: one_session_lookup chat_id_text_msg)
  have v: "valid_family_id (text_of (text_msg 7 (ascii ''116440054586'')))"
    by (simp add: text_of_id id_valid)
  show ?thesis
    unfolding handler_with_session[OF s v]
    by (simp add: text_of_id chat_id_text_msg try_block_def answered_def
        demo_config_def message_of_def decimal_500 suffix_def)
qed

section \<open>Sessions\<close>

text \<open>
  Several invocations of the handler may be in flight at once, but the store is read
  and written only in stretches without an \<open>await\<close>: the creation of a session at the
  start, and the two increments together. A session is never removed, so an execution
  changes the store as the run below does, in the order of those stretches.
\<close>

text \<open>
  C3, as amended. For a chat with no session, a message that is not a command creates
  a session only if it equals the access code, and then with \<open>authorized\<close> true and
  \<open>queries\<close> 0; a message that does not match is answered with the restriction notice
  and leaves the store as it was, without a session for the chat. Consequently every
  session of a store reached from the initial one is authorized, and \<open>totalUsers\<close> of
  the stats counts exactly the authorized sessions.
\<close>

theorem session_created_only_on_match:
  assumes "authorizedUsers st (chat_id m) = None"
    and "text_of m \<noteq> []" and "\<not> prefix (ascii ''/'') (text_of m)"
  shows "(text_of m \<noteq> ACCESS_CODE cfg \<longrightarrow>
            handler cfg st m r = (st, [SendMessage (chat_id m) restricted_text])) \<and>
         (text_of m = ACCESS_CODE cfg \<longrightarrow>
            handler cfg st m r =
              (st\<lparr>authorizedUsers :=
                   (authorizedUsers st)(chat_id m \<mapsto> \<lparr>authorized = True, queries = 0\<rparr>)\<rparr>,
               [SendMessage (chat_id m) granted_text])) \<and>
         (\<forall>c s. authorizedUsers (run cfg initial evs) c = Some s \<longrightarrow> authorized s) \<and>
         totalUsers (run cfg initial evs) =
           card {c. \<exists>s. authorizedUsers (run cfg initial evs) c = Some s \<and> authorized s}"
proof -
  have all: "authorized s" if "authorizedUsers (run cfg initial evs) c = Some s" for c s
    using that by (rule run_all_authorized[rotated]) (simp add: initial_empty)
  have "dom (authorizedUsers (run cfg initial evs)) =
        {c. \<exists>s. authorizedUsers (run cfg initial evs) c = Some s \<and> authorized s}"
    using all by (auto simp: dom_def)
  then have "totalUsers (run cfg initial evs) =
      card {c. \<exists>s. authorizedUsers (run cfg initial evs) c = Some s \<and> authorized s}"
    by (simp add: totalUsers_def)
  moreover have "handler cfg st m r = (st, [SendMessage (chat_id m) restricted_text])"
    if "text_of m \<noteq> ACCESS_CODE cfg"
    using that assms by (simp add: handler_no_session)
  moreover have "handler cfg st m r =
      (st\<lparr>authorizedUsers :=
           (authorizedUsers st)(chat_id m \<mapsto> \<lparr>authorized = True, queries = 0\<rparr>)\<rparr>,
       [SendMessage (chat_id m) granted_text])"
    if "text_of m = ACCESS_CODE cfg"
    using assms by (simp add: handler_no_session[OF assms(1)] that[symmetric])
  ultimately show ?thesis
    using all by blast
qed

text \<open>The theorem for the access code \<open>1234\<close> sent to the initial store.\<close>

theorem session_created_only_on_match_witness:
  "authorizedUsers initial (chat_id (text_msg 7 (ascii ''1234''))) = None \<and>
   text_of (text_msg 7 (ascii ''1234'')) \<noteq> [] \<and>
   \<not> prefix (ascii ''/'') (text_of (text_msg 7 (ascii ''1234''))) \<and>
   handler (demo_config False (ascii ''1234'')) initial (text_msg 7 (ascii ''1234''))
     (answered (found (Primitive Null))) =
     (initial\<lparr>authorizedUsers :=
        (authorizedUsers initial)(7 \<mapsto> \<lparr>authorized = True, queries = 0\<rparr>)\<rparr>,
      [SendMessage 7 granted_text]) \<and>
   totalUsers (run (demo_config False (ascii ''1234'')) initial
       [(text_msg 7 (ascii ''1234''), answered (found (Primitive Null)))]) = 1"
proof -
  have h1: "authorizedUsers initial (chat_id (text_msg 7 (ascii ''1234''))) = None"
    by (simp add: initial_empty)
  have h2: "text_of (text_msg 7 (ascii ''1234'')) \<noteq> []"
    by (simp add: text_of_code code_facts)
  have h3: "\<not> prefix (ascii ''/'') (text_of (text_msg 7 (ascii ''1234'')))"
    by (simp add: text_of_code code_facts)
  have h4: "text_of (text_msg 7 (ascii ''1234'')) =
            ACCESS_CODE (demo_config False (ascii ''1234''))"
    by (simp add: text_of_code demo_code)
  have users: "totalUsers (run (demo_config False (ascii ''1234'')) initial
       [(text_msg 7 (ascii ''1234''), answered (found (Primitive Null)))]) = 1"
    by (simp add: handler_grant_demo totalUsers_def one_session_def)
  from session_created_only_on_match[OF h1 h2 h3, of "demo_config False (ascii ''1234'')"
      "answered (found (Primitive Null))" "[]"] h4
  have "handler (demo_config False (ascii ''1234'')) initial (text_msg 7 (ascii ''1234''))
     (answered (found (Primitive Null))) =
     (initial\<lparr>authorizedUsers :=
        (authorizedUsers initial)(7 \<mapsto> \<lparr>authorized = True, queries = 0\<rparr>)\<rparr>,
      [SendMessage 7 granted_text])"
    by (simp add: chat_id_text_msg)
  with h1 h2 h3 users show ?thesis
    by blast
qed

text \<open>
  C3 as stated fails for a wrong code sent to the initial store: afterwards the chat
  has no session at all, and \<open>totalUsers\<close> is 0.
\<close>

theorem no_session_after_wrong_code_counterexample:
  "authorizedUsers initial 7 = None \<and>
   handler (demo_config False (ascii ''1234'')) initial (text_msg 7 (ascii ''wrong''))
     (answered (found (Primitive Null))) = (initial, [SendMessage 7 restricted_text]) \<and>
   authorizedUsers
     (fst (handler (demo_config False (ascii ''1234'')) initial (text_msg 7 (ascii ''wrong''))
        (answered (found (Primitive Null))))) 7 = None \<and>
   totalUsers
     (fst (handler (demo_config False (ascii ''1234'')) initial (text_msg 7 (ascii ''wrong''))
        (answered (found (Primitive Null))))) = 0"
  by (simp add: handler_wrong_demo initial_empty totalUsers_def) (simp add: initial_def)

text \<open>
  C4. In any run, a session that is authorized stays present and authorized, and in
  every store reached from the initial one each session's \<open>queries\<close> is at most
  \<open>totalLookups\<close>.
\<close>

theorem authorized_monotone_queries_bounded:
  "(\<forall>s. authorizedUsers st c = Some s \<and> authorized s \<longrightarrow>
        (\<exists>s'. authorizedUsers (run cfg st evs) c = Some s' \<and> authorized s')) \<and>
   (\<forall>s. authorizedUsers (run cfg initial evs) c = Some s \<longrightarrow>
        queries s \<le> totalLookups (run cfg initial evs))"
proof (intro conjI allI impI)
  fix s
  assume "authorizedUsers st c = Some s \<and> authorized s"
  then show "\<exists>s'. authorizedUsers (run cfg st evs) c = Some s' \<and> authorized s'"
    using run_authorized by blast
next
  fix s
  assume "authorizedUsers (run cfg initial evs) c = Some s"
  then show "queries s \<le> totalLookups (run cfg initial evs)"
    by (rule run_bounded[rotated]) (simp add: initial_empty)
qed

text \<open>
  The theorem for an authorized chat that makes a lookup, and for the run in which a
  chat sends the access code and then an identifier.
\<close>

theorem authorized_monotone_queries_bounded_witness:
  "authorizedUsers (one_session 7) 7 = Some \<lparr>authorized = True, queries = 0\<rparr> \<and>
   authorized \<lparr>authorized = True, queries = 0\<rparr> \<and>
   (\<exists>s'. authorizedUsers
           (run (demo_config False (ascii ''1234'')) (one_session 7)
              [(text_msg 7 (ascii ''116440054586''),
                answered (found (family_of (ascii ''12 MG Road'') (Array []))))]) 7 = Some s' \<and>
         authorized s') \<and>
   authorizedUsers
     (run (demo_config False (ascii ''1234'')) initial
        [(text_msg 7 (ascii ''1234''), answered (found (Primitive Null))),
         (text_msg 7 (ascii ''116440054586''),
          answered (found (family_of (ascii ''12 MG Road'') (Array []))))]) 7 =
     Some \<lparr>authorized = True, queries = 1\<rparr> \<and>
   queries \<lparr>authorized = True, queries = 1\<rparr> \<le>
     totalLookups
       (run (demo_config False (ascii ''1234'')) initial
          [(text_msg 7 (ascii ''1234''), answered (found (Primitive Null))),
           (text_msg 7 (ascii ''116440054586''),
            answered (found (family_of (ascii ''12 MG Road'') (Array []))))])"
proof -
  have a: "authorizedUsers (one_session 7) 7 = Some \<lparr>authorized = True, queries = 0\<rparr> \<and>
           authorized \<lparr>authorized = True, queries = 0\<rparr>"
    by (simp add: one_session_lookup)
  have b: "authorizedUsers
     (run (demo_config False (ascii ''1234'')) initial
        [(text_msg 7 (ascii ''1234''), answered (found (Primitive Null))),
         (text_msg 7 (ascii ''116440054586''),
          answered (found (family_of (ascii ''12 MG Road'') (Array []))))]) 7 =
     Some \<lparr>authorized = True, queries = 1\<rparr>"
    by (simp add: handler_grant_demo demo_lookup_store)
  from authorized_monotone_queries_bounded[of "one_session 7" 7
      "demo_config False (ascii ''1234'')"
      "[(text_msg 7 (ascii ''116440054586''),
         answered (found (family_of (ascii ''12 MG Road'') (Array []))))]"] a
  have c: "\<exists>s'. authorizedUsers
           (run (demo_config False (ascii ''1234'')) (one_session 7)
              [(text_msg 7 (ascii ''116440054586''),
                answered (found (family_of (ascii ''12 MG Road'') (Array []))))]) 7 = Some s' \<and>
         authorized s'"
    by blast
  from authorized_monotone_queries_bounded[of "one_session 7" 7
      "demo_config False (ascii ''1234'')"
      "[(text_msg 7 (ascii ''1234''), answered (found (Primitive Null))),
        (text_msg 7 (ascii ''116440054586''),
         answered (found (family_of (ascii ''12 MG Road'') (Array []))))]"] b
  have d: "queries \<lparr>authorized = True, queries = 1\<rparr> \<le>
     totalLookups
       (run (demo_config False (ascii ''1234'')) initial
          [(text_msg 7 (ascii ''1234''), answered (found (Primitive Null))),
           (text_msg 7 (ascii ''116440054586''),
            answered (found (family_of (ascii ''12 MG Road'') (Array []))))])"
    by blast
  from a b c d show ?thesis
    by blast
qed

text \<open>
  C6, as amended. For a chat that has a session, the handler does not compare the text
  with the access code: its result is the same whatever the access code is. A
  resubmitted access code is treated as an identifier like any other text; when the
  code is not six to fifteen digits, the store is unchanged and the reply is the notice
  for an invalid identifier. In particular, with the code \<open>1234\<close>, after a wrong code and
  then the right one, the right one sent again changes nothing.
\<close>

theorem resubmitted_code_is_an_identifier:
  assumes "authorizedUsers st (chat_id m) = Some sess"
  shows "handler (cfg\<lparr>ACCESS_CODE := code\<rparr>) st m r = handler cfg st m r \<and>
         (text_of m = ACCESS_CODE cfg \<and> \<not> valid_family_id (ACCESS_CODE cfg) \<longrightarrow>
            fst (handler cfg st m r) = st \<and>
            (ACCESS_CODE cfg \<noteq> [] \<and> \<not> prefix (ascii ''/'') (ACCESS_CODE cfg) \<longrightarrow>
               snd (handler cfg st m r) = [SendMessage (chat_id m) invalid_text]))"
proof (intro conjI impI)
  show "handler (cfg\<lparr>ACCESS_CODE := code\<rparr>) st m r = handler cfg st m r"
    using assms by (rule handler_session_code)
next
  assume "text_of m = ACCESS_CODE cfg \<and> \<not> valid_family_id (ACCESS_CODE cfg)"
  then have "\<not> valid_family_id (text_of m)"
    by simp
  with assms show "fst (handler cfg st m r) = st"
    by (rule handler_invalid)
next
  assume a: "text_of m = ACCESS_CODE cfg \<and> \<not> valid_family_id (ACCESS_CODE cfg)"
    and b: "ACCESS_CODE cfg \<noteq> [] \<and> \<not> prefix (ascii ''/'') (ACCESS_CODE cfg)"
  from a b have "text_of m \<noteq> []" "\<not> prefix (ascii ''/'') (text_of m)"
    "\<not> valid_family_id (text_of m)"
    by simp_all
  with assms show "snd (handler cfg st m r) = [SendMessage (chat_id m) invalid_text]"
    by (simp add: handler_def Let_def)
qed

text \<open>
  The theorem for the access code \<open>1234\<close>, at the store reached by a wrong code
  followed by the right one.
\<close>

theorem resubmitted_code_is_an_identifier_witness:
  "authorizedUsers
     (run (demo_config False (ascii ''1234'')) initial
        [(text_msg 7 (ascii ''wrong''), answered (found (Primitive Null))),
         (text_msg 7 (ascii ''1234''), answered (found (Primitive Null)))])
     (chat_id (text_msg 7 (ascii ''1234''))) = Some \<lparr>authorized = True, queries = 0\<rparr> \<and>
   text_of (text_msg 7 (ascii ''1234'')) = ACCESS_CODE (demo_config False (ascii ''1234'')) \<and>
   \<not> valid_family_id (ACCESS_CODE (demo_config False (ascii ''1234''))) \<and>
   handler (demo_config False (ascii ''1234''))
     (run (demo_config False (ascii ''1234'')) initial
        [(text_msg 7 (ascii ''wrong''), answered (found (Primitive Null))),
         (text_msg 7 (ascii ''1234''), answered (found (Primitive Null)))])
     (text_msg 7 (ascii ''1234'')) (answered (found (family_of (ascii ''12 MG Road'') (Array [])))) =
   (run (demo_config False (ascii ''1234'')) initial
        [(text_msg 7 (ascii ''wrong''), answered (found (Primitive Null))),
         (text_msg 7 (ascii ''1234''), answered (found (Primitive Null)))],
    [SendMessage 7 invalid_text])"
proof -
  let ?cfg = "demo_config False (ascii ''1234'')"
  let ?st = "run ?cfg initial
        [(text_msg 7 (ascii ''wrong''), answered (found (Primitive Null))),
         (text_msg 7 (ascii ''1234''), answered (found (Primitive Null)))]"
  have s: "authorizedUsers ?st (chat_id (text_msg 7 (ascii ''1234''))) =
      Some \<lparr>authorized = True, queries = 0\<rparr>"
    by (simp only: run_wrong_then_code chat_id_text_msg one_session_lookup)
  have t: "text_of (text_msg 7 (ascii ''1234'')) = ACCESS_CODE ?cfg"
    by (simp add: text_of_code demo_code)
  have v: "\<not> valid_family_id (ACCESS_CODE ?cfg)"
    by (simp add: demo_code code_facts)
  have n: "ACCESS_CODE ?cfg \<noteq> [] \<and> \<not> prefix (ascii ''/'') (ACCESS_CODE ?cfg)"
    by (simp add: demo_code code_facts)
  from resubmitted_code_is_an_identifier[OF s, where cfg = ?cfg
      and r = "answered (found (family_of (ascii ''12 MG Road'') (Array [])))"] t v n
  have "fst (handler ?cfg ?st (text_msg 7 (ascii ''1234''))
          (answered (found (family_of (ascii ''12 MG Road'') (Array []))))) = ?st \<and>
        snd (handler ?cfg ?st (text_msg 7 (ascii ''1234''))
          (answered (found (family_of (ascii ''12 MG Road'') (Array []))))) =
          [SendMessage (chat_id (text_msg 7 (ascii ''1234''))) invalid_text]"
    by blast
  then have "handler ?cfg ?st (text_msg 7 (ascii ''1234''))
          (answered (found (family_of (ascii ''12 MG Road'') (Array [])))) =
        (?st, [SendMessage 7 invalid_text])"
    by (simp add: prod_eq_iff chat_id_text_msg)
  with s t v show ?thesis
    by blast
qed

text \<open>
  C6 as stated fails when the access code is itself a string of six to fifteen digits:
  with the code \<open>123456\<close>, after a wrong code and then the right one, the right one sent
  again is looked up, and a found record advances both counters.
\<close>

theorem resubmitted_numeric_code_counterexample:
  "run (demo_config False (ascii ''123456'')) initial
     [(text_msg 7 (ascii ''wrong''), answered (found (family_of (ascii ''12 MG Road'') (Array [])))),
      (text_msg 7 (ascii ''123456''), answered (found (family_of (ascii ''12 MG Road'') (Array []))))] =
     one_session 7 \<and>
   text_of (text_msg 7 (ascii ''123456'')) = ACCESS_CODE (demo_config False (ascii ''123456'')) \<and>
   fst (handler (demo_config False (ascii ''123456'')) (one_session 7)
          (text_msg 7 (ascii ''123456''))
          (answered (found (family_of (ascii ''12 MG Road'') (Array []))))) =
     \<lparr>authorizedUsers = [7 \<mapsto> \<lparr>authorized = True, queries = 1\<rparr>], totalLookups = 1\<rparr> \<and>
   fst (handler (demo_config False (ascii ''123456'')) (one_session 7)
          (text_msg 7 (ascii ''123456''))
          (answered (found (family_of (ascii ''12 MG Road'') (Array []))))) \<noteq> one_session 7"
proof -
  let ?cfg = "demo_config False (ascii ''123456'')"
  let ?r = "answered (found (family_of (ascii ''12 MG Road'') (Array [])))"
  have w: "handler ?cfg initial (text_msg 7 (ascii ''wrong'')) ?r =
      (initial, [SendMessage 7 restricted_text])"
    by (simp add: handler_no_session initial_empty chat_id_text_msg text_of_wrong demo_code
        code_facts code6_facts)
  have g: "handler ?cfg initial (text_msg 7 (ascii ''123456'')) ?r =
      (one_session 7, [SendMessage 7 granted_text])"
    by (simp add: handler_no_session initial_empty chat_id_text_msg text_of_code6 demo_code
        code6_facts initial_def one_session_def)
  have s: "authorizedUsers (one_session 7) (chat_id (text_msg 7 (ascii ''123456''))) =
     Some \<lparr>authorized = True, queries = 0\<rparr>"
    by (simp add: one_session_lookup chat_id_text_msg)
  have l: "fst (handler ?cfg (one_session 7) (text_msg 7 (ascii ''123456'')) ?r) =
     \<lparr>authorizedUsers = [7 \<mapsto> \<lparr>authorized = True, queries = 1\<rparr>], totalLookups = 1\<rparr>"
    unfolding fst_handler_session[OF s]
    by (simp add: text_of_code6 code6_facts chat_id_text_msg answered_def found_def
        family_of_def one_session_def)
  have d: "\<lparr>authorizedUsers = [7 \<mapsto> \<lparr>authorized = True, queries = 1\<rparr>], totalLookups = 1\<rparr> \<noteq>
      one_session 7"
  proof
    assume "\<lparr>authorizedUsers = [7 \<mapsto> \<lparr>authorized = True, queries = 1\<rparr>], totalLookups = 1\<rparr> =
      one_session 7"
    then have "totalLookups \<lparr>authorizedUsers = [7 \<mapsto> \<lparr>authorized = True, queries = 1\<rparr>],
        totalLookups = 1\<rparr> = totalLookups (one_session 7)"
      by (rule arg_cong)
    then show False
      by (simp add: one_session_total)
  qed
  have r: "run ?cfg initial [(text_msg 7 (ascii ''wrong''), ?r), (text_msg 7 (ascii ''123456''), ?r)] =
      one_session 7"
    by (simp add: w g)
  have t: "text_of (text_msg 7 (ascii ''123456'')) = ACCESS_CODE ?cfg"
    by (simp add: text_of_code6 demo_code)
  show ?thesis
    unfolding l using r t d by blast
qed

section \<open>A successful lookup\<close>

text \<open>
  C8. For a chat with a session that sends a valid identifier, when the response is ok
  and parses to a record whose member list holds two members with string names, the
  session's \<open>queries\<close> and \<open>totalLookups\<close> each grow by exactly one, and the reply handed to
  the chat client after the fetching notice is, character for character, the header
  lines, then exactly two member lines, that of the first member beginning with \<open>1.\<close>
  and that of the second beginning with \<open>2.\<close>, separated by a blank line, then the
  closing notice.
\<close>

theorem lookup_of_two_members:
  assumes "authorizedUsers st (chat_id m) = Some sess"
    and "valid_family_id (text_of m)"
    and "sendFetching r = Resolved ()"
    and "fetched r = Resolved res" and "ok res" and "json res = Resolved (Object fam)"
    and "memberDetailsList fam = Array [Element m1, Element m2]"
    and "memberName m1 = Str n1" and "memberName m2 = Str n2"
  shows "fst (handler cfg st m r) =
           st\<lparr>authorizedUsers :=
                (authorizedUsers st)(chat_id m \<mapsto> sess\<lparr>queries := queries sess + 1\<rparr>),
              totalLookups := totalLookups st + 1\<rparr> \<and>
         take 3 (snd (handler cfg st m r)) =
           [SendMessage (chat_id m) fetching_text,
            Fetch (API_BASE cfg @ encodeURIComponent cfg (text_of m)),
            SendMarkdown (chat_id m)
              (header_text @ newline @
               rule_text @ newline @
               ascii ''Scheme: '' @
                 (if truthy (schemeName fam) then toString (schemeName fam)
                  else ascii ''N/A'') @ newline @
               ascii ''District: '' @
                 (if truthy (homeDistName fam) then toString (homeDistName fam)
                  else ascii ''N/A'') @ newline @
               ascii ''State: '' @
                 (if truthy (homeStateName fam) then toString (homeStateName fam)
                  else ascii ''N/A'') @ newline @
               ascii ''Address: '' @
                 (if SHOW_SENSITIVE cfg
                  then if address fam = Undefined \<or> address fam = Null then ascii ''N/A''
                       else toString (address fam)
                  else maskString (address fam) 6) @ newline @
               newline @
               members_header @ newline @
               (ascii ''1. '' @
                (if SHOW_SENSITIVE cfg then n1
                 else if n1 = [] then ascii ''N/A''
                 else toUpperCase cfg [hd n1] @ ascii ''.'' @ replicate (length n1 - 1) 0x2A) @
                [0x20, 0x2014, 0x20] @
                (if truthy (releationship_name m1) then toString (releationship_name m1)
                 else ascii ''N/A'') @
                newline @ ascii ''   '' @ [0xD83C, 0xDD94, 0x20] @
                (if SHOW_SENSITIVE cfg then toString (memberId m1)
                 else maskString (memberId m1) 4)) @
               newline @ newline @
               (ascii ''2. '' @
                (if SHOW_SENSITIVE cfg then n2
                 else if n2 = [] then ascii ''N/A''
                 else toUpperCase cfg [hd n2] @ ascii ''.'' @ replicate (length n2 - 1) 0x2A) @
                [0x20, 0x2014, 0x20] @
                (if truthy (releationship_name m2) then toString (releationship_name m2)
                 else ascii ''N/A'') @
                newline @ ascii ''   '' @ [0xD83C, 0xDD94, 0x20] @
                (if SHOW_SENSITIVE cfg then toString (memberId m2)
                 else maskString (memberId m2) 4)) @ newline @
               newline @
               (if SHOW_SENSITIVE cfg then warning_banner else masked_notice))]"
proof -
  have truthy: "body_truthy (Object fam)" "list_truthy (get_memberDetailsList (Object fam))"
    by (simp_all add: assms(7))
  show ?thesis
    unfolding handler_parsed[OF assms(1-6)] render_two_named[OF assms(7-9)]
    using truthy by simp
qed

text \<open>The theorem for the identifier \<open>116440054586\<close> and a record of two members.\<close>

theorem lookup_of_two_members_witness:
  "authorizedUsers (one_session 7) (chat_id (text_msg 7 (ascii ''116440054586''))) =
     Some \<lparr>authorized = True, queries = 0\<rparr> \<and>
   valid_family_id (text_of (text_msg 7 (ascii ''116440054586''))) \<and>
   fst (handler (demo_config False (ascii ''1234'')) (one_session 7)
          (text_msg 7 (ascii ''116440054586''))
          (answered (found (family_of (ascii ''12 MG Road'')
             (Array [person (ascii ''Asha'') (ascii ''Self'') (ascii ''116440054586''),
                     person (ascii ''ravi'') (ascii ''Son'') (ascii ''220011223344'')]))))) =
     (one_session 7)\<lparr>authorizedUsers :=
        (authorizedUsers (one_session 7))(7 \<mapsto> \<lparr>authorized = True, queries = 1\<rparr>),
        totalLookups := 1\<rparr> \<and>
   take 3 (snd (handler (demo_config False (ascii ''1234'')) (one_session 7)
          (text_msg 7 (ascii ''116440054586''))
          (answered (found (family_of (ascii ''12 MG Road'')
             (Array [person (ascii ''Asha'') (ascii ''Self'') (ascii ''116440054586''),
                     person (ascii ''ravi'') (ascii ''Son'') (ascii ''220011223344'')])))))) =
     [SendMessage 7 fetching_text,
      Fetch (ascii ''https://api.example/family/'' @ ascii ''116440054586''),
      SendMarkdown 7
        (header_text @ newline @ rule_text @ newline @
         ascii ''Scheme: AAY'' @ newline @
         ascii ''District: Pune'' @ newline @
         ascii ''State: N/A'' @ newline @
         ascii ''Address: ****G Road'' @ newline @
         newline @
         members_header @ newline @
         ascii ''1. A.***'' @ [0x20, 0x2014, 0x20] @ ascii ''Self'' @ newline @
           ascii ''   '' @ [0xD83C, 0xDD94, 0x20] @ ascii ''********4586'' @
         newline @ newline @
         ascii ''2. R.***'' @ [0x20, 0x2014, 0x20] @ ascii ''Son'' @ newline @
           ascii ''   '' @ [0xD83C, 0xDD94, 0x20] @ ascii ''********3344'' @ newline @
         newline @
         masked_notice)]"
proof -
  let ?cfg = "demo_config False (ascii ''1234'')"
  let ?m1 = "\<lparr>memberName = Str (ascii ''Asha''), releationship_name = Str (ascii ''Self''),
      memberId = Str (ascii ''116440054586'')\<rparr>"
  let ?m2 = "\<lparr>memberName = Str (ascii ''ravi''), releationship_name = Str (ascii ''Son''),
      memberId = Str (ascii ''220011223344'')\<rparr>"
  let ?fam = "\<lparr>schemeName = Str (ascii ''AAY''), homeDistName = Str (ascii ''Pune''),
       homeStateName = Undefined, address = Str (ascii ''12 MG Road''),
       memberDetailsList = Array [Element ?m1, Element ?m2]\<rparr>"
  have f: "family_of (ascii ''12 MG Road'')
             (Array [person (ascii ''Asha'') (ascii ''Self'') (ascii ''116440054586''),
                     person (ascii ''ravi'') (ascii ''Son'') (ascii ''220011223344'')]) =
           Object ?fam"
    by (simp add: family_of_def person_eq)
  have j: "json (found (Object ?fam)) = Resolved (Object ?fam)"
    by (rule answered_fields)
  have l: "memberDetailsList ?fam = Array [Element ?m1, Element ?m2]"
    by simp
  have n1: "memberName ?m1 = Str (ascii ''Asha'')" and n2: "memberName ?m2 = Str (ascii ''ravi'')"
    by simp_all
  note t = lookup_of_two_members[OF demo_session_valid answered_fields(1,2,4) j l n1 n2, of ?cfg]
  have s': "fst (handler ?cfg (one_session 7) (text_msg 7 (ascii ''116440054586''))
           (answered (found (Object ?fam)))) =
     (one_session 7)\<lparr>authorizedUsers :=
        (authorizedUsers (one_session 7))(7 \<mapsto> \<lparr>authorized = True, queries = 1\<rparr>),
        totalLookups := 1\<rparr>"
    unfolding conjunct1[OF t] by (simp add: chat_id_text_msg one_session_total)
  have t': "take 3 (snd (handler ?cfg (one_session 7) (text_msg 7 (ascii ''116440054586''))
           (answered (found (Object ?fam))))) =
     [SendMessage 7 fetching_text,
      Fetch (ascii ''https://api.example/family/'' @ ascii ''116440054586''),
      SendMarkdown 7
        (header_text @ newline @ rule_text @ newline @
         ascii ''Scheme: AAY'' @ newline @
         ascii ''District: Pune'' @ newline @
         ascii ''State: N/A'' @ newline @
         ascii ''Address: ****G Road'' @ newline @
         newline @
         members_header @ newline @
         ascii ''1. A.***'' @ [0x20, 0x2014, 0x20] @ ascii ''Self'' @ newline @
           ascii ''   '' @ [0xD83C, 0xDD94, 0x20] @ ascii ''********4586'' @
         newline @ newline @
         ascii ''2. R.***'' @ [0x20, 0x2014, 0x20] @ ascii ''Son'' @ newline @
           ascii ''   '' @ [0xD83C, 0xDD94, 0x20] @ ascii ''********3344'' @ newline @
         newline @
         masked_notice)]"
    unfolding conjunct2[OF t] chat_id_text_msg text_of_id demo_fields
    by (simp add: maskString_def slice_last_def repeat_single ascii_upper_def ascii_def
        replicate_numeral)
  from demo_session_valid s' t' show ?thesis
    unfolding f by blast
qed

text \<open>
  C9. For a record whose address, member names and member identifiers are strings, the
  rendered message is given character for character. With \<open>SHOW_SENSITIVE\<close> the address
  line, each name and each identifier carry the raw strings and the message ends with
  the warning banner; without it the address is \<open>maskString\<close> of the address keeping six
  characters, each name is the placeholder if empty and otherwise its upper-cased first
  character, a full stop and asterisks, each identifier is \<open>maskString\<close> of the
  identifier keeping four, and the message ends with the notice that fields are masked,
  which is not the banner.
\<close>

theorem sensitive_flag_selects_raw_or_masked:
  assumes "address fam = Str a"
    and "memberDetailsList fam =
           Array (map (\<lambda>(n, rel, i).
             Element \<lparr>memberName = Str n, releationship_name = rel, memberId = Str i\<rparr>) ts)"
  shows "render cfg (Object fam) =
           Inr (header_text @ newline @
                rule_text @ newline @
                ascii ''Scheme: '' @
                  (if truthy (schemeName fam) then toString (schemeName fam)
                   else ascii ''N/A'') @ newline @
                ascii ''District: '' @
                  (if truthy (homeDistName fam) then toString (homeDistName fam)
                   else ascii ''N/A'') @ newline @
                ascii ''State: '' @
                  (if truthy (homeStateName fam) then toString (homeStateName fam)
                   else ascii ''N/A'') @ newline @
                ascii ''Address: '' @
                  (if SHOW_SENSITIVE cfg then a else maskString (Str a) 6) @ newline @
                newline @
                members_header @ newline @
                (case map (\<lambda>(j, n, rel, i).
                        decimal (j + 1) @ ascii ''. '' @
                        (if SHOW_SENSITIVE cfg then n
                         else if n = [] then ascii ''N/A''
                         else toUpperCase cfg [hd n] @ ascii ''.'' @
                              replicate (length n - 1) 0x2A) @
                        [0x20, 0x2014, 0x20] @
                        (if truthy rel then toString rel else ascii ''N/A'') @
                        newline @ ascii ''   '' @ [0xD83C, 0xDD94, 0x20] @
                        (if SHOW_SENSITIVE cfg then i else maskString (Str i) 4))
                      (enumerate 0 ts) of
                   [] \<Rightarrow> []
                 | l # ls \<Rightarrow> l @ concat (map (\<lambda>y. newline @ newline @ y) ls)) @ newline @
                newline @
                (if SHOW_SENSITIVE cfg then warning_banner else masked_notice)) \<and>
         warning_banner \<noteq> masked_notice"
proof -
  have addr: "safeLine (ascii ''Address'')
        (if SHOW_SENSITIVE cfg then Str a else Str (maskString (Str a) 6)) =
      ascii ''Address: '' @ (if SHOW_SENSITIVE cfg then a else maskString (Str a) 6)"
    by (simp add: address_line)
  have "render cfg (Object fam) = Inr (join newline
             [header_text,
              rule_text,
              safeLine (ascii ''Scheme'') (or_na (schemeName fam)),
              safeLine (ascii ''District'') (or_na (homeDistName fam)),
              safeLine (ascii ''State'') (or_na (homeStateName fam)),
              safeLine (ascii ''Address'')
                (if SHOW_SENSITIVE cfg then Str a else Str (maskString (Str a) 6)),
              [],
              members_header,
              join (newline @ newline)
                (map (\<lambda>(j, n, rel, i).
                   decimal (j + 1) @ ascii ''. '' @
                   (if SHOW_SENSITIVE cfg then n
                    else if n = [] then ascii ''N/A''
                    else toUpperCase cfg [hd n] @ ascii ''.'' @ replicate (length n - 1) 0x2A) @
                   [0x20, 0x2014, 0x20] @
                   (if truthy rel then toString rel else ascii ''N/A'') @
                   newline @ ascii ''   '' @ [0xD83C, 0xDD94, 0x20] @
                   (if SHOW_SENSITIVE cfg then i else maskString (Str i) 4))
                 (enumerate 0 ts)),
              [],
              if SHOW_SENSITIVE cfg then warning_banner else masked_notice])"
    unfolding render_def Let_def get_field.simps get_memberDetailsList.simps assms
      memberlist.case map_members_named sum.case
    by (simp only: if_distrib[of Str] split: if_splits)
  then have "render cfg (Object fam) =
      Inr (header_text @ newline @ rule_text @ newline @
           (ascii ''Scheme: '' @
              (if truthy (schemeName fam) then toString (schemeName fam) else ascii ''N/A'')) @
           newline @
           (ascii ''District: '' @
              (if truthy (homeDistName fam) then toString (homeDistName fam)
               else ascii ''N/A'')) @
           newline @
           (ascii ''State: '' @
              (if truthy (homeStateName fam) then toString (homeStateName fam)
               else ascii ''N/A'')) @
           newline @
           (ascii ''Address: '' @ (if SHOW_SENSITIVE cfg then a else maskString (Str a) 6)) @
           newline @ newline @ members_header @ newline @
           join (newline @ newline)
                (map (\<lambda>(j, n, rel, i).
                   decimal (j + 1) @ ascii ''. '' @
                   (if SHOW_SENSITIVE cfg then n
                    else if n = [] then ascii ''N/A''
                    else toUpperCase cfg [hd n] @ ascii ''.'' @ replicate (length n - 1) 0x2A) @
                   [0x20, 0x2014, 0x20] @
                   (if truthy rel then toString rel else ascii ''N/A'') @
                   newline @ ascii ''   '' @ [0xD83C, 0xDD94, 0x20] @
                   (if SHOW_SENSITIVE cfg then i else maskString (Str i) 4))
                 (enumerate 0 ts)) @
           newline @ newline @
           (if SHOW_SENSITIVE cfg then warning_banner else masked_notice))"
    by (simp only: join_message header_lines addr)
  then show ?thesis
    using banner_not_notice by (simp only: join_blank_line append_assoc simp_thms)
qed

text \<open>The theorem for a record of two members, rendered with the flag set and unset.\<close>

theorem sensitive_flag_selects_raw_or_masked_witness:
  "render (demo_config True (ascii ''1234''))
     (family_of (ascii ''12 MG Road'')
        (Array [person (ascii ''Asha'') (ascii ''Self'') (ascii ''116440054586''),
                person (ascii ''ravi'') (ascii ''Son'') (ascii ''220011223344'')])) =
     Inr (header_text @ newline @ rule_text @ newline @
          ascii ''Scheme: AAY'' @ newline @
          ascii ''District: Pune'' @ newline @
          ascii ''State: N/A'' @ newline @
          ascii ''Address: 12 MG Road'' @ newline @
          newline @
          members_header @ newline @
          ascii ''1. Asha'' @ [0x20, 0x2014, 0x20] @ ascii ''Self'' @ newline @
            ascii ''   '' @ [0xD83C, 0xDD94, 0x20] @ ascii ''116440054586'' @
          newline @ newline @
          ascii ''2. ravi'' @ [0x20, 0x2014, 0x20] @ ascii ''Son'' @ newline @
            ascii ''   '' @ [0xD83C, 0xDD94, 0x20] @ ascii ''220011223344'' @ newline @
          newline @
          warning_banner) \<and>
   render (demo_config False (ascii ''1234''))
     (family_of (ascii ''12 MG Road'')
        (Array [person (ascii ''Asha'') (ascii ''Self'') (ascii ''116440054586''),
                person (ascii ''ravi'') (ascii ''Son'') (ascii ''220011223344'')])) =
     Inr (header_text @ newline @ rule_text @ newline @
          ascii ''Scheme: AAY'' @ newline @
          ascii ''District: Pune'' @ newline @
          ascii ''State: N/A'' @ newline @
          ascii ''Address: ****G Road'' @ newline @
          newline @
          members_header @ newline @
          ascii ''1. A.***'' @ [0x20, 0x2014, 0x20] @ ascii ''Self'' @ newline @
            ascii ''   '' @ [0xD83C, 0xDD94, 0x20] @ ascii ''********4586'' @
          newline @ newline @
          ascii ''2. R.***'' @ [0x20, 0x2014, 0x20] @ ascii ''Son'' @ newline @
            ascii ''   '' @ [0xD83C, 0xDD94, 0x20] @ ascii ''********3344'' @ newline @
          newline @
          masked_notice)"
proof -
  let ?fam = "\<lparr>schemeName = Str (ascii ''AAY''), homeDistName = Str (ascii ''Pune''),
       homeStateName = Undefined, address = Str (ascii ''12 MG Road''),
       memberDetailsList =
         Array [person (ascii ''Asha'') (ascii ''Self'') (ascii ''116440054586''),
                person (ascii ''ravi'') (ascii ''Son'') (ascii ''220011223344'')]\<rparr>"
  let ?ts = "[(ascii ''Asha'', Str (ascii ''Self''), ascii ''116440054586''),
              (ascii ''ravi'', Str (ascii ''Son''), ascii ''220011223344'')]"
  have h1: "address ?fam = Str (ascii ''12 MG Road'')"
    by simp
  have h2: "memberDetailsList ?fam =
      Array (map (\<lambda>(n, rel, i).
        Element \<lparr>memberName = Str n, releationship_name = rel, memberId = Str i\<rparr>) ?ts)"
    by (simp add: person_eq)
  have f: "family_of (ascii ''12 MG Road'')
        (Array [person (ascii ''Asha'') (ascii ''Self'') (ascii ''116440054586''),
                person (ascii ''ravi'') (ascii ''Son'') (ascii ''220011223344'')]) = Object ?fam"
    by (simp add: family_of_def)
  show ?thesis
    using sensitive_flag_selects_raw_or_masked[OF h1 h2, of "demo_config True (ascii ''1234'')"]
      sensitive_flag_selects_raw_or_masked[OF h1 h2, of "demo_config False (ascii ''1234'')"]
    unfolding f
    by (simp add: demo_config_def maskString_def slice_last_def
        repeat_single decimal_small newline_def ascii_upper_def ascii_def replicate_numeral)
qed

text \<open>
  C10, as amended. When the response is ok and parsed: a body whose \<open>memberDetailsList\<close>
  is the empty array is a successful lookup, both counters are incremented and the
  reply is the header lines, the members heading, an empty members line and the closing
  notice. The notice that no data was found is emitted exactly when the body is a
  primitive or its \<open>memberDetailsList\<close> is absent, \<open>null\<close>, \<open>false\<close>, \<open>0\<close> or the empty
  string; the store is then unchanged.
\<close>

theorem empty_member_list_is_found:
  assumes "authorizedUsers st (chat_id m) = Some sess"
    and "valid_family_id (text_of m)"
    and "sendFetching r = Resolved ()"
    and "fetched r = Resolved res" and "ok res" and "json res = Resolved data"
  shows "(\<forall>fam. data = Object fam \<and> memberDetailsList fam = Array [] \<longrightarrow>
            fst (handler cfg st m r) =
              st\<lparr>authorizedUsers :=
                   (authorizedUsers st)(chat_id m \<mapsto> sess\<lparr>queries := queries sess + 1\<rparr>),
                 totalLookups := totalLookups st + 1\<rparr> \<and>
            take 3 (snd (handler cfg st m r)) =
              [SendMessage (chat_id m) fetching_text,
               Fetch (API_BASE cfg @ encodeURIComponent cfg (text_of m)),
               SendMarkdown (chat_id m)
                 (header_text @ newline @
                  rule_text @ newline @
                  ascii ''Scheme: '' @
                    (if truthy (schemeName fam) then toString (schemeName fam)
                     else ascii ''N/A'') @ newline @
                  ascii ''District: '' @
                    (if truthy (homeDistName fam) then toString (homeDistName fam)
                     else ascii ''N/A'') @ newline @
                  ascii ''State: '' @
                    (if truthy (homeStateName fam) then toString (homeStateName fam)
                     else ascii ''N/A'') @ newline @
                  ascii ''Address: '' @
                    (if SHOW_SENSITIVE cfg
                     then if address fam = Undefined \<or> address fam = Null then ascii ''N/A''
                          else toString (address fam)
                     else maskString (address fam) 6) @ newline @
                  newline @
                  members_header @ newline @
                  newline @
                  newline @
                  (if SHOW_SENSITIVE cfg then warning_banner else masked_notice))]) \<and>
         (SendMessage (chat_id m) not_found_text \<in> set (snd (handler cfg st m r))) =
           ((\<exists>v. data = Primitive v) \<or>
            (\<exists>fam. data = Object fam \<and>
               memberDetailsList fam \<in>
                 {NotArray Undefined, NotArray Null, NotArray (Bool False),
                  NotArray (Num (ascii ''0'')), NotArray (Str [])})) \<and>
         ((\<exists>v. data = Primitive v) \<or>
          (\<exists>fam. data = Object fam \<and>
             memberDetailsList fam \<in>
               {NotArray Undefined, NotArray Null, NotArray (Bool False),
                NotArray (Num (ascii ''0'')), NotArray (Str [])}) \<longrightarrow>
            handler cfg st m r =
              (st, [SendMessage (chat_id m) fetching_text,
                    Fetch (API_BASE cfg @ encodeURIComponent cfg (text_of m)),
                    SendMessage (chat_id m) not_found_text]))"
proof (intro conjI allI impI)
  fix fam
  assume d: "data = Object fam \<and> memberDetailsList fam = Array []"
  then have truthy: "body_truthy data" "list_truthy (get_memberDetailsList data)"
    by simp_all
  from d have rend: "render cfg data =
     Inr (header_text @ newline @
          rule_text @ newline @
          ascii ''Scheme: '' @
            (if truthy (schemeName fam) then toString (schemeName fam)
             else ascii ''N/A'') @ newline @
          ascii ''District: '' @
            (if truthy (homeDistName fam) then toString (homeDistName fam)
             else ascii ''N/A'') @ newline @
          ascii ''State: '' @
            (if truthy (homeStateName fam) then toString (homeStateName fam)
             else ascii ''N/A'') @ newline @
          ascii ''Address: '' @
            (if SHOW_SENSITIVE cfg
             then if address fam = Undefined \<or> address fam = Null then ascii ''N/A''
                  else toString (address fam)
             else maskString (address fam) 6) @ newline @
          newline @
          members_header @ newline @
          newline @
          newline @
          (if SHOW_SENSITIVE cfg then warning_banner else masked_notice))"
    by (simp add: render_no_members)
  show "fst (handler cfg st m r) =
      st\<lparr>authorizedUsers :=
           (authorizedUsers st)(chat_id m \<mapsto> sess\<lparr>queries := queries sess + 1\<rparr>),
         totalLookups := totalLookups st + 1\<rparr>"
    unfolding handler_parsed[OF assms] using truthy by simp
  show "take 3 (snd (handler cfg st m r)) =
      [SendMessage (chat_id m) fetching_text,
       Fetch (API_BASE cfg @ encodeURIComponent cfg (text_of m)),
       SendMarkdown (chat_id m)
         (header_text @ newline @
          rule_text @ newline @
          ascii ''Scheme: '' @
            (if truthy (schemeName fam) then toString (schemeName fam)
             else ascii ''N/A'') @ newline @
          ascii ''District: '' @
            (if truthy (homeDistName fam) then toString (homeDistName fam)
             else ascii ''N/A'') @ newline @
          ascii ''State: '' @
            (if truthy (homeStateName fam) then toString (homeStateName fam)
             else ascii ''N/A'') @ newline @
          ascii ''Address: '' @
            (if SHOW_SENSITIVE cfg
             then if address fam = Undefined \<or> address fam = Null then ascii ''N/A''
                  else toString (address fam)
             else maskString (address fam) 6) @ newline @
          newline @
          members_header @ newline @
          newline @
          newline @
          (if SHOW_SENSITIVE cfg then warning_banner else masked_notice))]"
    unfolding handler_parsed[OF assms] rend using truthy by simp
next
  show "(SendMessage (chat_id m) not_found_text \<in> set (snd (handler cfg st m r))) =
      ((\<exists>v. data = Primitive v) \<or>
       (\<exists>fam. data = Object fam \<and>
          memberDetailsList fam \<in>
            {NotArray Undefined, NotArray Null, NotArray (Bool False),
             NotArray (Num (ascii ''0'')), NotArray (Str [])}))"
    unfolding handler_parsed[OF assms] not_found_condition[symmetric]
    by (auto simp: not_found_not_fetching not_found_not_failed split: sum.splits promise.splits)
next
  assume "(\<exists>v. data = Primitive v) \<or>
      (\<exists>fam. data = Object fam \<and>
         memberDetailsList fam \<in>
           {NotArray Undefined, NotArray Null, NotArray (Bool False),
            NotArray (Num (ascii ''0'')), NotArray (Str [])})"
  then have "\<not> body_truthy data \<or> \<not> list_truthy (get_memberDetailsList data)"
    by (simp only: not_found_condition)
  then show "handler cfg st m r =
      (st, [SendMessage (chat_id m) fetching_text,
            Fetch (API_BASE cfg @ encodeURIComponent cfg (text_of m)),
            SendMessage (chat_id m) not_found_text])"
    unfolding handler_parsed[OF assms] by simp
qed

text \<open>
  The theorem for a record with an empty member array, for a record without the field,
  and for the body \<open>null\<close>.
\<close>

theorem empty_member_list_is_found_witness:
  "authorizedUsers (one_session 7) (chat_id (text_msg 7 (ascii ''116440054586''))) =
     Some \<lparr>authorized = True, queries = 0\<rparr> \<and>
   valid_family_id (text_of (text_msg 7 (ascii ''116440054586''))) \<and>
   fst (handler (demo_config False (ascii ''1234'')) (one_session 7)
          (text_msg 7 (ascii ''116440054586''))
          (answered (found (family_of (ascii ''12 MG Road'') (Array []))))) =
     (one_session 7)\<lparr>authorizedUsers :=
        (authorizedUsers (one_session 7))(7 \<mapsto> \<lparr>authorized = True, queries = 1\<rparr>),
        totalLookups := 1\<rparr> \<and>
   take 3 (snd (handler (demo_config False (ascii ''1234'')) (one_session 7)
          (text_msg 7 (ascii ''116440054586''))
          (answered (found (family_of (ascii ''12 MG Road'') (Array [])))))) =
     [SendMessage 7 fetching_text,
      Fetch (ascii ''https://api.example/family/'' @ ascii ''116440054586''),
      SendMarkdown 7
        (header_text @ newline @ rule_text @ newline @
         ascii ''Scheme: AAY'' @ newline @
         ascii ''District: Pune'' @ newline @
         ascii ''State: N/A'' @ newline @
         ascii ''Address: ****G Road'' @ newline @
         newline @
         members_header @ newline @
         newline @
         newline @
         masked_notice)] \<and>
   handler (demo_config False (ascii ''1234'')) (one_session 7)
     (text_msg 7 (ascii ''116440054586''))
     (answered (found (family_of (ascii ''12 MG Road'') (NotArray Undefined)))) =
     (one_session 7,
      [SendMessage 7 fetching_text,
       Fetch (ascii ''https://api.example/family/'' @ ascii ''116440054586''),
       SendMessage 7 not_found_text]) \<and>
   handler (demo_config False (ascii ''1234'')) (one_session 7)
     (text_msg 7 (ascii ''116440054586'')) (answered (found (Primitive Null))) =
     (one_session 7,
      [SendMessage 7 fetching_text,
       Fetch (ascii ''https://api.example/family/'' @ ascii ''116440054586''),
       SendMessage 7 not_found_text])"
proof -
  let ?cfg = "demo_config False (ascii ''1234'')"
  let ?fam = "\<lambda>ms. \<lparr>schemeName = Str (ascii ''AAY''), homeDistName = Str (ascii ''Pune''),
       homeStateName = Undefined, address = Str (ascii ''12 MG Road''),
       memberDetailsList = ms\<rparr>"
  have f: "family_of (ascii ''12 MG Road'') ms = Object (?fam ms)" for ms
    by (simp add: family_of_def)
  from empty_member_list_is_found[OF demo_session_valid answered_fields(1,2,4,5),
      of "family_of (ascii ''12 MG Road'') (Array [])" ?cfg]
  have a: "fst (handler ?cfg (one_session 7) (text_msg 7 (ascii ''116440054586''))
          (answered (found (family_of (ascii ''12 MG Road'') (Array []))))) =
     (one_session 7)\<lparr>authorizedUsers :=
        (authorizedUsers (one_session 7))(7 \<mapsto> \<lparr>authorized = True, queries = 1\<rparr>),
        totalLookups := 1\<rparr> \<and>
   take 3 (snd (handler ?cfg (one_session 7) (text_msg 7 (ascii ''116440054586''))
          (answered (found (family_of (ascii ''12 MG Road'') (Array [])))))) =
     [SendMessage 7 fetching_text,
      Fetch (ascii ''https://api.example/family/'' @ ascii ''116440054586''),
      SendMarkdown 7
        (header_text @ newline @ rule_text @ newline @
         ascii ''Scheme: AAY'' @ newline @
         ascii ''District: Pune'' @ newline @
         ascii ''State: N/A'' @ newline @
         ascii ''Address: ****G Road'' @ newline @
         newline @
         members_header @ newline @
         newline @
         newline @
         masked_notice)]"
    unfolding f chat_id_text_msg text_of_id demo_fields one_session_total
    by (simp add: maskString_def slice_last_def repeat_single ascii_def replicate_numeral)
  from empty_member_list_is_found[OF demo_session_valid answered_fields(1,2,4,5),
      of "family_of (ascii ''12 MG Road'') (NotArray Undefined)" ?cfg]
  have b: "handler ?cfg (one_session 7) (text_msg 7 (ascii ''116440054586''))
     (answered (found (family_of (ascii ''12 MG Road'') (NotArray Undefined)))) =
     (one_session 7,
      [SendMessage 7 fetching_text,
       Fetch (ascii ''https://api.example/family/'' @ ascii ''116440054586''),
       SendMessage 7 not_found_text])"
    unfolding f
    by (simp add: chat_id_text_msg text_of_id demo_fields)
  from empty_member_list_is_found[OF demo_session_valid answered_fields(1,2,4,5),
      of "Primitive Null" ?cfg]
  have c: "handler ?cfg (one_session 7) (text_msg 7 (ascii ''116440054586''))
     (answered (found (Primitive Null))) =
     (one_session 7,
      [SendMessage 7 fetching_text,
       Fetch (ascii ''https://api.example/family/'' @ ascii ''116440054586''),
       SendMessage 7 not_found_text])"
    by (simp add: chat_id_text_msg text_of_id demo_fields)
  from demo_session_valid a b c show ?thesis
    by blast
qed

text \<open>
  C10 as stated fails for a body whose \<open>memberDetailsList\<close> is present and holds the
  empty string: the field is not absent, and the notice that no data was found is
  emitted.
\<close>

theorem empty_string_member_list_counterexample:
  "get_memberDetailsList (family_of (ascii ''12 MG Road'') (NotArray (Str []))) =
     NotArray (Str []) \<and>
   NotArray (Str []) \<noteq> NotArray Undefined \<and>
   handler (demo_config False (ascii ''1234'')) (one_session 7)
     (text_msg 7 (ascii ''116440054586''))
     (answered (found (family_of (ascii ''12 MG Road'') (NotArray (Str []))))) =
     (one_session 7,
      [SendMessage 7 fetching_text,
       Fetch (ascii ''https://api.example/family/'' @ ascii ''116440054586''),
       SendMessage 7 not_found_text])"
  unfolding handler_parsed[OF demo_session_valid answered_fields(1,2,4,5)]
  by (simp add: family_of_def chat_id_text_msg text_of_id demo_fields)

end
